theory Spec2Isabelle
  imports Complex_Main "HOL-Library.AList" "HOL-Library.Log_Nat"
begin

section \<open>JavaScript values\<close>

text \<open>
  The fields of a request body are JSON values. \<open>JUndefined\<close> is the value of a field
  that the body does not have. \<open>JNum i\<close> is the number \<open>i\<close>: the numbers of the model
  are the integers (a fraction is truthy like any other non-zero number, and no handler
  computes with one). The identity (\<open>email\<close>) is kept as a \<open>string\<close>: the handlers only
  test it with \<open>!email\<close>, where an absent field and the empty string behave alike, and
  use it as a key.
\<close>

datatype jsval =
    JUndefined
  | JNull
  | JBool bool
  | JNum int
  | JStr string
  | JArr "jsval list"
  | JObj "(string \<times> jsval) list"

text \<open>\<open>truthy v\<close> is the value of \<open>v\<close> in a condition, \<open>!v\<close> its negation.\<close>

fun truthy :: "jsval \<Rightarrow> bool" where
  "truthy JUndefined = False"
| "truthy JNull = False"
| "truthy (JBool b) = b"
| "truthy (JNum n) = (n \<noteq> 0)"
| "truthy (JStr s) = (s \<noteq> [])"
| "truthy (JArr xs) = True"
| "truthy (JObj kvs) = True"

text \<open>\<open>a || b\<close>\<close>

definition js_or :: "jsval \<Rightarrow> jsval \<Rightarrow> jsval" where
  "js_or a b = (if truthy a then a else b)"

subsection \<open>Numbers as decimal strings\<close>

definition digit_char :: "nat \<Rightarrow> char" where
  "digit_char d = ''0123456789'' ! d"

fun digits :: "nat \<Rightarrow> string" where
  "digits n = (if n < 10 then [digit_char n] else digits (n div 10) @ [digit_char (n mod 10)])"

declare digits.simps [simp del]

text \<open>
  \<open>Number.prototype.toString\<close> on a number that is an integer. Below \<open>10^21\<close> in
  magnitude JavaScript writes all the digits. From \<open>10^21\<close> on it writes exponent notation
  (\<open>1e+21\<close>), whose digits are not modelled: there the result is left unspecified.
\<close>

definition number_toString :: "int \<Rightarrow> string" where
  "number_toString i =
     (if \<bar>i\<bar> < 10 ^ 21
      then if i < 0 then CHR ''-'' # digits (nat (- i)) else digits (nat i)
      else undefined)"

text \<open>\<open>Array.prototype.join(',')\<close> on strings.\<close>

fun comma_join :: "string list \<Rightarrow> string" where
  "comma_join [] = []"
| "comma_join [w] = w"
| "comma_join (w # v # ws) = w @ CHR '','' # comma_join (v # ws)"

text \<open>
  \<open>String(v)\<close>, and \<open>xs.join(',')\<close> on any values: an element that is \<open>undefined\<close> or
  \<open>null\<close> contributes the empty string, every other one its \<open>String\<close>.
\<close>

fun js_String :: "jsval \<Rightarrow> string" where
  "js_String JUndefined = ''undefined''"
| "js_String JNull = ''null''"
| "js_String (JBool b) = (if b then ''true'' else ''false'')"
| "js_String (JNum n) = number_toString n"
| "js_String (JStr s) = s"
| "js_String (JArr xs) =
     comma_join (map (\<lambda>x. if x = JUndefined \<or> x = JNull then [] else js_String x) xs)"
| "js_String (JObj kvs) = ''[object Object]''"

definition array_join :: "jsval list \<Rightarrow> string" where
  "array_join xs = js_String (JArr xs)"

text \<open>\<open>s.split(',')\<close>: the pieces between the commas; the result is never empty.\<close>

fun split_comma :: "string \<Rightarrow> string list" where
  "split_comma [] = [[]]"
| "split_comma (c # cs) =
     (if c = CHR '','' then [] # split_comma cs
      else case split_comma cs of
             [] \<Rightarrow> [[c]]
           | w # ws \<Rightarrow> (c # w) # ws)"

text \<open>The value a decimal string denotes, to state what a passcode reads as.\<close>

definition digit_value :: "char \<Rightarrow> nat" where
  "digit_value c = of_char c - 48"

definition decimal_value :: "string \<Rightarrow> nat" where
  "decimal_value cs = foldl (\<lambda>acc c. 10 * acc + digit_value c) 0 cs"

definition is_digit :: "char \<Rightarrow> bool" where
  "is_digit c = (c \<in> set ''0123456789'')"

section \<open>Arithmetic in doubles\<close>

text \<open>
  JavaScript computes with IEEE 754 doubles. A double that is not negative is kept as a
  pair \<open>(m, e)\<close> of integers that stands for \<open>m * 2^e\<close>, with \<open>0 \<le> m < 2^53\<close> and
  \<open>- 1074 \<le> e\<close>. An operation computes its exact result as such a pair with any \<open>m\<close>
  and rounds it to the nearest double, a tie to the even significand (the default
  rounding of IEEE 754). Overflow to infinity is not modelled; the numbers here stay
  below \<open>2^20\<close>.
\<close>

type_synonym dyadic = "int \<times> int"

text \<open>\<open>N / 2^k\<close> rounded to the nearest integer, a tie to the even one.\<close>

definition rne_shift :: "int \<Rightarrow> nat \<Rightarrow> int" where
  "rne_shift N k =
     (let q = N div 2 ^ k; r = N mod 2 ^ k
      in if 2 * r < 2 ^ k then q
         else if 2 ^ k < 2 * r then q + 1
         else if even q then q else q + 1)"

text \<open>
  Rounding to a double: a significand of more than 53 bits loses its low bits, and no
  exponent goes below \<open>- 1074\<close> (the subnormal numbers).
\<close>

definition round53 :: "dyadic \<Rightarrow> dyadic" where
  "round53 a =
     (let k = nat (max 0 (max (bitlen (fst a) - 53) (- 1074 - snd a)))
      in (rne_shift (fst a) k, snd a + int k))"

text \<open>\<open>a * b\<close>, \<open>a + b\<close> and \<open>Math.floor(a)\<close> on doubles that are not negative.\<close>

definition double_mul :: "dyadic \<Rightarrow> dyadic \<Rightarrow> dyadic" where
  "double_mul a b = round53 (fst a * fst b, snd a + snd b)"

definition double_add :: "dyadic \<Rightarrow> dyadic \<Rightarrow> dyadic" where
  "double_add a b =
     (let e = min (snd a) (snd b)
      in round53 (fst a * 2 ^ nat (snd a - e) + fst b * 2 ^ nat (snd b - e), e))"

definition double_floor :: "dyadic \<Rightarrow> int" where
  "double_floor a =
     (if 0 \<le> snd a then fst a * 2 ^ nat (snd a) else fst a div 2 ^ nat (- snd a))"

text \<open>The real number a pair stands for, to reason about the operations.\<close>

definition dyadic_value :: "dyadic \<Rightarrow> real" where
  "dyadic_value a = of_int (fst a) * 2 powi snd a"

text \<open>
  What \<open>Math.random()\<close> can return: the doubles in \<open>[0, 1)\<close>. Each of them has a pair
  with a negative exponent.
\<close>

typedef unit_double =
  "{a :: dyadic. 0 \<le> fst a \<and> fst a < 2 ^ 53 \<and> - 1074 \<le> snd a \<and> snd a < 0
      \<and> fst a < 2 ^ nat (- snd a)}"
  by (rule exI [of _ "(0, - 1)"]) simp

setup_lifting type_definition_unit_double

section \<open>The passcode registry\<close>

text \<open>
  \<^verbatim>\<open>function generateOtp() { return Math.floor(100000 + Math.random() * 900000).toString(); }\<close>
  The draw of \<open>Math.random()\<close> is the argument.
\<close>

definition generateOtp :: "unit_double \<Rightarrow> string" where
  "generateOtp r =
     number_toString
       (double_floor (double_add (100000, 0) (double_mul (Rep_unit_double r) (900000, 0))))"

text \<open>
  \<^verbatim>\<open>const otps = {};\<close> maps an email to \<open>{ otp, expiresAt }\<close>. The object is kept as
  an association list in insertion order: an assignment \<open>otps[email] = v\<close> is
  \<open>AList.update\<close>, a read \<open>otps[email]\<close> is \<open>map_of\<close>. \<open>delete otps[email]\<close> removes
  an own property, as \<open>AList.delete\<close> does, with one exception: on a plain object the
  assignment to the key \<open>__proto__\<close> does not create a property but makes the assigned
  entry the prototype of \<open>otps\<close>. A read of \<open>otps["__proto__"]\<close> returns that entry, a
  new assignment replaces it, and \<open>delete\<close> finds no own property and removes nothing.
  The entry of the key \<open>__proto__\<close> in the list is that prototype.

  A read can also return a value that is no entry: an inherited member of
  \<open>Object.prototype\<close> (a function, or the prototype object itself for the key
  \<open>__proto__\<close>) or, once an entry is the prototype, its \<open>otp\<close> string and \<open>expiresAt\<close>
  number under those two keys. None of these values has a member \<open>otp\<close>, so the test of
  the handlers below rejects each of them as it rejects \<open>undefined\<close>; in the list such
  a key has no entry.
\<close>

record otp_record =
  otp :: string
  expiresAt :: int

type_synonym registry = "(string \<times> otp_record) list"

text \<open>\<^verbatim>\<open>delete otps[email]\<close>\<close>

definition delete_property :: "string \<Rightarrow> registry \<Rightarrow> registry" where
  "delete_property k reg = (if k = ''__proto__'' then reg else AList.delete k reg)"

text \<open>
  The test both gated handlers make on \<open>record = otps[email]\<close>:
  \<^verbatim>\<open>!record || record.otp !== otp || record.expiresAt < Date.now()\<close>
  It is reached only with a truthy \<open>otp\<close>, which no missing member equals.
\<close>

definition otp_rejected :: "otp_record option \<Rightarrow> jsval \<Rightarrow> int \<Rightarrow> bool" where
  "otp_rejected record submitted t =
     (case record of
        None \<Rightarrow> True
      | Some r \<Rightarrow> JStr (otp r) \<noteq> submitted \<or> expiresAt r < t)"

section \<open>Storage, mail and the server state\<close>

text \<open>The ten scalar profile columns; \<open>JNull\<close> is the SQL null.\<close>

record scalars =
  name :: jsval
  phone :: jsval
  age :: jsval
  ageGroup :: jsval
  dob :: jsval
  country :: jsval
  state :: jsval
  city :: jsval
  pincode :: jsval
  role :: jsval

text \<open>A row of the table \<open>users\<close>; \<open>uid\<close> is the column \<open>id\<close>.\<close>

record user =
  uid :: nat
  email :: string
  password_hash :: string
  profile :: scalars
  work_tags :: "string option"

record mail =
  mail_from :: string
  mail_to :: string
  subject :: string
  text_body :: string

text \<open>
  The state of the process and of its collaborators: the registry, the tables \<open>users\<close>
  and \<open>login_events\<close> (a row is the \<open>user_id\<close>), the next value of the key sequence of
  \<open>users\<close>, and the messages the transport has accepted.
\<close>

record server =
  otps :: registry
  users :: "user list"
  login_events :: "nat list"
  next_id :: nat
  sent :: "mail list"

text \<open>
  What one request meets outside the handler: the clock, the random draw, whether the
  transport or a storage statement throws, and bcrypt (\<open>None\<close> when it throws).
\<close>

record env =
  date_now :: int
  math_random :: unit_double
  EMAIL_USER :: string
  mail_fails :: bool
  select_fails :: bool
  write_fails :: bool
  bcrypt_hash :: "jsval \<Rightarrow> string option"
  bcrypt_compare :: "jsval \<Rightarrow> string \<Rightarrow> bool option"

text \<open>The view \<open>safeUser\<close> that \<^verbatim>\<open>GET /api/user\<close> answers with.\<close>

record safeUser =
  su_id :: nat
  su_email :: string
  su_scalars :: scalars
  workTags :: "string list"

text \<open>
  A response: \<open>res.status(n).json({ message })\<close>, \<open>res.json({ message, email })\<close> and
  \<open>res.json({ user })\<close>.
\<close>

datatype response =
    Message nat string
  | MessageEmail string string
  | UserJson safeUser

definition initial :: server where
  "initial = \<lparr>otps = [], users = [], login_events = [], next_id = 1, sent = []\<rparr>"

text \<open>\<^verbatim>\<open>select ... from users where email = ${email}\<close>, first row.\<close>

definition getUserByEmail :: "user list \<Rightarrow> string \<Rightarrow> user option" where
  "getUserByEmail us e = find (\<lambda>u. email u = e) us"

text \<open>
  Modelled from the spec: the schema of \<open>users\<close> is not among the sources. A row created
  by \<^verbatim>\<open>insert into users (email, password_hash)\<close> gets the next key and, as the spec
  says, no profile field populated.
\<close>

definition no_scalars :: scalars where
  "no_scalars = \<lparr>name = JNull, phone = JNull, age = JNull, ageGroup = JNull, dob = JNull,
     country = JNull, state = JNull, city = JNull, pincode = JNull, role = JNull\<rparr>"

definition insert_user :: "nat \<Rightarrow> string \<Rightarrow> string \<Rightarrow> user" where
  "insert_user i e h =
     \<lparr>uid = i, email = e, password_hash = h, profile = no_scalars, work_tags = None\<rparr>"

text \<open>\<^verbatim>\<open>update users set password_hash = ${newHash} where id = ${user.id}\<close>\<close>

definition update_password_hash :: "nat \<Rightarrow> string \<Rightarrow> user list \<Rightarrow> user list" where
  "update_password_hash i h us =
     map (\<lambda>u. if uid u = i then u\<lparr>password_hash := h\<rparr> else u) us"

text \<open>\<open>mailer.js\<close>: the message \<open>sendOtpEmail(to, otp)\<close> hands to the transport.\<close>

definition mailOptions :: "string \<Rightarrow> string \<Rightarrow> string \<Rightarrow> mail" where
  "mailOptions sender to code =
     \<lparr>mail_from = sender, mail_to = to, subject = ''Your Jugaad OTP'',
      text_body = ''Your Jugaad verification code is '' @ code @ ''. It is valid for 5 minutes.''\<rparr>"

section \<open>The handlers\<close>

text \<open>\<^verbatim>\<open>POST /api/send-otp\<close>\<close>

definition send_otp :: "env \<Rightarrow> string \<Rightarrow> server \<Rightarrow> response \<times> server" where
  "send_otp e em s =
     (if em = [] then (Message 400 ''Email is required for OTP'', s)
      else
        let code = generateOtp (math_random e);
            s1 = s\<lparr>otps := AList.update em
                   \<lparr>otp = code, expiresAt = date_now e + 5 * 60 * 1000\<rparr> (otps s)\<rparr>
        in if mail_fails e then (Message 500 ''Failed to send email OTP'', s1)
           else (Message 200 ''OTP sent to your email'',
                 s1\<lparr>sent := sent s1 @ [mailOptions (EMAIL_USER e) em code]\<rparr>))"

text \<open>\<^verbatim>\<open>POST /api/signup\<close>\<close>

definition signup :: "env \<Rightarrow> string \<Rightarrow> jsval \<Rightarrow> jsval \<Rightarrow> server \<Rightarrow> response \<times> server" where
  "signup e em password submitted s =
     (if em = [] \<or> \<not> truthy password \<or> \<not> truthy submitted
      then (Message 400 ''Email, password and OTP are required'', s)
      else if otp_rejected (map_of (otps s) em) submitted (date_now e)
      then (Message 400 ''Invalid or expired OTP'', s)
      else if select_fails e then (Message 500 ''Server error during signup'', s)
      else
        case getUserByEmail (users s) em of
          Some existing \<Rightarrow> (Message 400 ''User already exists, please login'', s)
        | None \<Rightarrow>
            (case bcrypt_hash e password of
               None \<Rightarrow> (Message 500 ''Server error during signup'', s)
             | Some passwordHash \<Rightarrow>
                 if write_fails e then (Message 500 ''Server error during signup'', s)
                 else
                   let u = insert_user (next_id s) em passwordHash
                   in (MessageEmail ''Signup successful'' (email u),
                       s\<lparr>users := users s @ [u], next_id := Suc (next_id s),
                         otps := delete_property em (otps s)\<rparr>)))"

text \<open>\<^verbatim>\<open>POST /api/login\<close>\<close>

definition login :: "env \<Rightarrow> string \<Rightarrow> jsval \<Rightarrow> server \<Rightarrow> response \<times> server" where
  "login e em password s =
     (if em = [] \<or> \<not> truthy password
      then (Message 400 ''Email and password are required'', s)
      else if select_fails e then (Message 500 ''Server error during login'', s)
      else
        case getUserByEmail (users s) em of
          None \<Rightarrow> (Message 404 ''User not found, please sign up'', s)
        | Some u \<Rightarrow>
            (case bcrypt_compare e password (password_hash u) of
               None \<Rightarrow> (Message 500 ''Server error during login'', s)
             | Some ok \<Rightarrow>
                 if \<not> ok then (Message 400 ''Invalid password'', s)
                 else if write_fails e then (Message 500 ''Server error during login'', s)
                 else (MessageEmail ''Login successful'' (email u),
                       s\<lparr>login_events := login_events s @ [uid u]\<rparr>)))"

text \<open>\<^verbatim>\<open>POST /api/reset-password\<close>\<close>

definition reset_password ::
  "env \<Rightarrow> string \<Rightarrow> jsval \<Rightarrow> jsval \<Rightarrow> server \<Rightarrow> response \<times> server" where
  "reset_password e em submitted newPassword s =
     (if em = [] \<or> \<not> truthy submitted \<or> \<not> truthy newPassword
      then (Message 400 ''Email, OTP and new password are required'', s)
      else if otp_rejected (map_of (otps s) em) submitted (date_now e)
      then (Message 400 ''Invalid or expired OTP'', s)
      else if select_fails e then (Message 500 ''Server error during reset'', s)
      else
        case getUserByEmail (users s) em of
          None \<Rightarrow> (Message 404 ''User not found'', s)
        | Some u \<Rightarrow>
            (case bcrypt_hash e newPassword of
               None \<Rightarrow> (Message 500 ''Server error during reset'', s)
             | Some newHash \<Rightarrow>
                 if write_fails e then (Message 500 ''Server error during reset'', s)
                 else (Message 200 ''Password reset successful'',
                       s\<lparr>users := update_password_hash (uid u) newHash (users s),
                         otps := delete_property em (otps s)\<rparr>)))"

text \<open>\<^verbatim>\<open>GET /api/user\<close>\<close>

definition workTagsArray :: "string option \<Rightarrow> string list" where
  "workTagsArray stored =
     (case stored of
        None \<Rightarrow> []
      | Some w \<Rightarrow> if w = [] then [] else filter (\<lambda>t. t \<noteq> []) (split_comma w))"

definition or_empty :: "scalars \<Rightarrow> scalars" where
  "or_empty p =
     \<lparr>name = js_or (name p) (JStr []),
      phone = js_or (phone p) (JStr []),
      age = js_or (age p) (JStr []),
      ageGroup = js_or (ageGroup p) (JStr []),
      dob = js_or (dob p) (JStr []),
      country = js_or (country p) (JStr []),
      state = js_or (state p) (JStr []),
      city = js_or (city p) (JStr []),
      pincode = js_or (pincode p) (JStr []),
      role = js_or (role p) (JStr [])\<rparr>"

definition get_user :: "env \<Rightarrow> string \<Rightarrow> server \<Rightarrow> response \<times> server" where
  "get_user e em s =
     (if em = [] then (Message 400 ''Email is required'', s)
      else if select_fails e then (Message 500 ''Server error fetching user'', s)
      else
        case getUserByEmail (users s) em of
          None \<Rightarrow> (Message 404 ''User not found'', s)
        | Some u \<Rightarrow>
            (UserJson \<lparr>su_id = uid u, su_email = email u, su_scalars = or_empty (profile u),
                       workTags = workTagsArray (work_tags u)\<rparr>, s))"

text \<open>\<^verbatim>\<open>POST /api/profile\<close>\<close>

definition tagsArray :: "jsval \<Rightarrow> jsval list" where
  "tagsArray tags =
     (case tags of
        JArr xs \<Rightarrow> xs
      | _ \<Rightarrow> if truthy tags then [tags] else [])"

definition or_null :: "scalars \<Rightarrow> scalars" where
  "or_null p =
     \<lparr>name = js_or (name p) JNull,
      phone = js_or (phone p) JNull,
      age = js_or (age p) JNull,
      ageGroup = js_or (ageGroup p) JNull,
      dob = js_or (dob p) JNull,
      country = js_or (country p) JNull,
      state = js_or (state p) JNull,
      city = js_or (city p) JNull,
      pincode = js_or (pincode p) JNull,
      role = js_or (role p) JNull\<rparr>"

text \<open>\<^verbatim>\<open>update users set name = ..., work_tags = ${tagsString || null} where id = ${user.id}\<close>\<close>

definition update_profile :: "nat \<Rightarrow> scalars \<Rightarrow> string \<Rightarrow> user list \<Rightarrow> user list" where
  "update_profile i p tagsString us =
     map (\<lambda>u. if uid u = i
               then u\<lparr>profile := or_null p,
                      work_tags := (if tagsString = [] then None else Some tagsString)\<rparr>
               else u) us"

definition save_profile ::
  "env \<Rightarrow> string \<Rightarrow> scalars \<Rightarrow> jsval \<Rightarrow> server \<Rightarrow> response \<times> server" where
  "save_profile e em p tags s =
     (if em = [] then (Message 400 ''Email is required'', s)
      else
        let tagsString = array_join (tagsArray tags)
        in if select_fails e then (Message 500 ''Server error saving profile'', s)
           else
             case getUserByEmail (users s) em of
               None \<Rightarrow> (Message 404 ''User not found'', s)
             | Some u \<Rightarrow>
                 if write_fails e then (Message 500 ''Server error saving profile'', s)
                 else (MessageEmail ''Profile saved'' em,
                       s\<lparr>users := update_profile (uid u) p tagsString (users s)\<rparr>))"


section \<open>Sequences of requests\<close>

datatype request =
    SendOtp string
  | Signup string jsval jsval
  | Login string jsval
  | ResetPassword string jsval jsval
  | GetUser string
  | SaveProfile string scalars jsval

fun handle :: "env \<Rightarrow> request \<Rightarrow> server \<Rightarrow> response \<times> server" where
  "handle e (SendOtp em) s = send_otp e em s"
| "handle e (Signup em password submitted) s = signup e em password submitted s"
| "handle e (Login em password) s = login e em password s"
| "handle e (ResetPassword em submitted newPassword) s =
     reset_password e em submitted newPassword s"
| "handle e (GetUser em) s = get_user e em s"
| "handle e (SaveProfile em p tags) s = save_profile e em p tags s"

fun run :: "(env \<times> request) list \<Rightarrow> server \<Rightarrow> server" where
  "run [] s = s"
| "run ((e, q) # rest) s = run rest (snd (handle e q s))"

text \<open>How many entries the registry holds for an identity.\<close>

definition entries_for :: "string \<Rightarrow> registry \<Rightarrow> nat" where
  "entries_for em reg = length (filter (\<lambda>kv. fst kv = em) reg)"

section \<open>The gate in the words of the specification\<close>

text \<open>
  An entry exists for the identity, its stored code is the submitted value (a string,
  character for character), and the clock has not passed the entry's expiry.
\<close>

definition spec_otp_valid :: "registry \<Rightarrow> string \<Rightarrow> jsval \<Rightarrow> int \<Rightarrow> bool" where
  "spec_otp_valid reg em submitted t =
     (case map_of reg em of
        None \<Rightarrow> False
      | Some r \<Rightarrow> submitted = JStr (otp r) \<and> t \<le> expiresAt r)"

section \<open>A concrete setting for examples\<close>

text \<open>
  A stand-in for bcrypt that keeps its contract (a password verifies against its own
  hash, a value that is no string makes it throw), and an environment in which every
  collaborator works.
\<close>

definition example_hash :: "jsval \<Rightarrow> string option" where
  "example_hash v = (case v of JStr p \<Rightarrow> Some (''$2b$10$'' @ p) | _ \<Rightarrow> None)"

definition example_compare :: "jsval \<Rightarrow> string \<Rightarrow> bool option" where
  "example_compare v h = (case v of JStr p \<Rightarrow> Some (h = ''$2b$10$'' @ p) | _ \<Rightarrow> None)"

lift_definition one_half :: unit_double is "(1, - 1)"
  by simp

text \<open>
  A draw at which rounding decides the code: \<open>2219098676390952 / 2^52\<close>. The exact value
  of \<open>100000 + r * 900000\<close> lies just below 543465, and the doubles give 543465.
\<close>

lift_definition rounded_draw :: unit_double is "(2219098676390952, - 52)"
  by simp

definition example_env :: "int \<Rightarrow> env" where
  "example_env t =
     \<lparr>date_now = t, math_random = one_half, EMAIL_USER = ''jugaad@example.com'',
      mail_fails = False, select_fails = False, write_fails = False,
      bcrypt_hash = example_hash, bcrypt_compare = example_compare\<rparr>"

definition example_user :: user where
  "example_user = insert_user 1 ''a@x.com'' ''$2b$10$secret''"

definition example_server :: server where
  "example_server =
     \<lparr>otps = [(''a@x.com'', \<lparr>otp = ''550000'', expiresAt = 301000\<rparr>)],
      users = [example_user], login_events = [], next_id = 2, sent = []\<rparr>"

section \<open>Decimal strings\<close>

lemma digit_cases: "d < 10 \<Longrightarrow> d \<in> {0, 1, 2, 3, 4, 5, 6, 7, 8, 9::nat}"
  by auto

lemma digit_char_is_digit: "d < 10 \<Longrightarrow> is_digit (digit_char d)"
  by (drule digit_cases) (auto simp: is_digit_def digit_char_def)

lemma digit_value_digit_char: "d < 10 \<Longrightarrow> digit_value (digit_char d) = d"
  by (drule digit_cases) (auto simp: digit_value_def digit_char_def)

lemma digit_char_zero: "d < 10 \<Longrightarrow> digit_char d = CHR ''0'' \<longleftrightarrow> d = 0"
  by (drule digit_cases) (auto simp: digit_char_def)

lemma digits_nonempty: "digits n \<noteq> []"
  by (subst digits.simps) simp

lemma digits_all_digits: "\<forall>c\<in>set (digits n). is_digit c"
proof (induction n rule: digits.induct)
  case (1 n)
  show ?case
  proof (cases "n < 10")
    case True
    then show ?thesis by (subst digits.simps) (simp add: digit_char_is_digit)
  next
    case False
    with 1 show ?thesis by (subst digits.simps) (simp add: digit_char_is_digit)
  qed
qed

lemma decimal_value_snoc:
  "decimal_value (cs @ [c]) = 10 * decimal_value cs + digit_value c"
  by (simp add: decimal_value_def)

lemma decimal_value_digits: "decimal_value (digits n) = n"
proof (induction n rule: digits.induct)
  case (1 n)
  show ?case
  proof (cases "n < 10")
    case True
    then show ?thesis
      by (subst digits.simps) (simp add: decimal_value_def digit_value_digit_char)
  next
    case False
    with 1 have "decimal_value (digits (n div 10)) = n div 10" by simp
    with False show ?thesis
      by (subst digits.simps) (simp add: decimal_value_snoc digit_value_digit_char)
  qed
qed

lemma hd_digits: "0 < n \<Longrightarrow> hd (digits n) \<noteq> CHR ''0''"
proof (induction n rule: digits.induct)
  case (1 n)
  show ?case
  proof (cases "n < 10")
    case True
    with 1(2) show ?thesis by (subst digits.simps) (simp add: digit_char_zero)
  next
    case False
    then have "0 < n div 10" by simp
    with 1(1) False have "hd (digits (n div 10)) \<noteq> CHR ''0''" by simp
    with False show ?thesis
      by (subst digits.simps) (simp add: digits_nonempty)
  qed
qed

lemma length_digits_small: "n < 10 \<Longrightarrow> length (digits n) = 1"
  by (subst digits.simps) simp

lemma length_digits_step: "10 \<le> n \<Longrightarrow> length (digits n) = Suc (length (digits (n div 10)))"
  by (subst digits.simps) simp

lemma length_digits_six:
  assumes "100000 \<le> n" and "n \<le> 999999"
  shows "length (digits n) = 6"
proof -
  have "length (digits (n div 100000)) = 1"
    using assms by (intro length_digits_small) simp
  then have "length (digits (n div 10000)) = 2"
    using assms length_digits_step [of "n div 10000"] by (simp add: div_mult2_eq [symmetric])
  then have "length (digits (n div 1000)) = 3"
    using assms length_digits_step [of "n div 1000"] by (simp add: div_mult2_eq [symmetric])
  then have "length (digits (n div 100)) = 4"
    using assms length_digits_step [of "n div 100"] by (simp add: div_mult2_eq [symmetric])
  then have "length (digits (n div 10)) = 5"
    using assms length_digits_step [of "n div 10"] by (simp add: div_mult2_eq [symmetric])
  then show ?thesis
    using assms length_digits_step [of n] by simp
qed

section \<open>Rounding\<close>

lemma rne_shift_0: "rne_shift N 0 = N"
  by (simp add: rne_shift_def)

lemma rne_shift_cases: "rne_shift N k = N div 2 ^ k \<or> rne_shift N k = N div 2 ^ k + 1"
  by (simp add: rne_shift_def Let_def)

lemma rne_shift_ge: "Y * 2 ^ k \<le> N \<Longrightarrow> Y \<le> rne_shift N k"
proof -
  assume "Y * 2 ^ k \<le> N"
  then have "(Y * 2 ^ k) div 2 ^ k \<le> N div 2 ^ k" by (intro zdiv_mono1) simp_all
  then have "Y \<le> N div 2 ^ k" by simp
  with rne_shift_cases [of N k] show ?thesis by auto
qed

lemma rne_shift_le: "N \<le> Y * 2 ^ k \<Longrightarrow> rne_shift N k \<le> Y"
proof -
  assume a: "N \<le> Y * 2 ^ k"
  then have "N div 2 ^ k \<le> (Y * 2 ^ k) div 2 ^ k" by (intro zdiv_mono1) simp_all
  then have q: "N div 2 ^ k \<le> Y" by simp
  show ?thesis
  proof (cases "N div 2 ^ k = Y")
    case True
    have "N = (N div 2 ^ k) * 2 ^ k + N mod 2 ^ k"
      using div_mult_mod_eq [of N "2 ^ k"] by simp
    with True have "N = Y * 2 ^ k + N mod 2 ^ k" by simp
    with a have "N mod 2 ^ k \<le> 0" by linarith
    moreover have "0 \<le> N mod 2 ^ k" by simp
    ultimately have "N mod 2 ^ k = 0" by linarith
    with True show ?thesis by (simp add: rne_shift_def)
  next
    case False
    with q rne_shift_cases [of N k] show ?thesis by auto
  qed
qed

lemma rne_shift_below:
  assumes "N < Y * 2 ^ k" and "2 ^ k < 2 * (Y * 2 ^ k - N)"
  shows "rne_shift N k \<le> Y - 1"
proof -
  define d :: int where "d = 2 ^ k"
  define q where "q = N div d"
  define r where "r = N mod d"
  have N: "N = q * d + r" by (simp add: q_def r_def)
  have r: "0 \<le> r" by (simp add: r_def d_def)
  from assms have a: "N < Y * d" and b: "d < 2 * (Y * d) - 2 * N"
    by (simp_all add: d_def)
  from a have "N \<le> Y * d" by simp
  then have "N div d \<le> (Y * d) div d" by (intro zdiv_mono1) (simp_all add: d_def)
  then have q: "q \<le> Y" by (simp add: q_def d_def)
  have "q \<noteq> Y"
  proof
    assume "q = Y"
    with N have "N = Y * d + r" by simp
    with r a show False by linarith
  qed
  with q have q': "q \<le> Y - 1" by simp
  have c: "rne_shift N k = q \<or> rne_shift N k = q + 1"
    using rne_shift_cases [of N k] by (simp add: q_def d_def)
  show ?thesis
  proof (cases "q = Y - 1")
    case True
    with N have "N = Y * d - d + r" by (simp add: algebra_simps)
    with b have "2 * r < d" by linarith
    then have "rne_shift N k = q" by (simp add: rne_shift_def Let_def q_def r_def d_def)
    with True show ?thesis by simp
  next
    case False
    with q' c show ?thesis by auto
  qed
qed

subsection \<open>The values of rounded results\<close>

lemma powi_shift: "(2::real) powi (E + int k) = 2 powi E * 2 ^ k"
  by (simp add: power_int_add)

lemma round53_exponent:
  "snd (round53 a) = max (snd a) (max (snd a + bitlen (fst a) - 53) (- 1074))"
  by (simp add: round53_def Let_def)

lemma round53_exponent_le:
  assumes "snd a \<le> F" and "- 1074 \<le> F" and "dyadic_value a < 2 powi (F + 53)"
  shows "snd (round53 a) \<le> F"
proof -
  have "bitlen (fst a) \<le> F + 53 - snd a"
  proof (cases "0 < fst a")
    case True
    from assms(1) have p: "0 \<le> F + 53 - snd a" by simp
    have "of_int (fst a) * 2 powi snd a < (2::real) powi (F + 53)"
      using assms(3) by (simp add: dyadic_value_def)
    then have "of_int (fst a) < (2::real) powi (F + 53) / 2 powi snd a"
      by (simp add: field_simps)
    also have "\<dots> = 2 powi (F + 53 - snd a)" by (simp add: power_int_diff)
    also have "\<dots> = 2 ^ nat (F + 53 - snd a)" using p by (simp add: power_int_def)
    finally have "fst a < 2 ^ nat (F + 53 - snd a)"
      by (metis of_int_less_iff of_int_numeral of_int_power)
    with p show ?thesis by (simp add: bitlen_le_iff_power)
  next
    case False
    then have "bitlen (fst a) = 0" by (simp add: bitlen_eq_zero_iff)
    with assms(1) show ?thesis by simp
  qed
  with assms(1,2) show ?thesis by (simp add: round53_exponent)
qed

lemma round53_exact:
  "bitlen (fst a) \<le> 53 \<Longrightarrow> - 1074 \<le> snd a \<Longrightarrow> round53 a = a"
  by (simp add: round53_def Let_def rne_shift_0 max_def)

lemma round53_value_le:
  assumes "dyadic_value a \<le> of_int Y * 2 powi F" and "snd (round53 a) \<le> F"
  shows "dyadic_value (round53 a) \<le> of_int Y * 2 powi F"
proof -
  define k where "k = nat (max 0 (max (bitlen (fst a) - 53) (- 1074 - snd a)))"
  have r: "round53 a = (rne_shift (fst a) k, snd a + int k)"
    by (simp add: round53_def k_def Let_def)
  define j where "j = nat (F - (snd a + int k))"
  from assms(2) have F: "F = snd a + int k + int j" by (simp add: r j_def)
  have "of_int (fst a) * 2 powi snd a \<le> of_int (Y * 2 ^ j * 2 ^ k) * (2::real) powi snd a"
    using assms(1) by (simp add: dyadic_value_def F power_int_add mult_ac)
  then have "(of_int (fst a) :: real) \<le> of_int (Y * 2 ^ j * 2 ^ k)"
    by (simp only: mult_le_cancel_right_pos zero_less_power_int zero_less_numeral)
  then have "fst a \<le> (Y * 2 ^ j) * 2 ^ k" by (simp only: of_int_le_iff)
  then have "rne_shift (fst a) k \<le> Y * 2 ^ j" by (rule rne_shift_le)
  then have "(of_int (rne_shift (fst a) k) :: real) \<le> of_int (Y * 2 ^ j)"
    by (simp only: of_int_le_iff)
  then have "of_int (rne_shift (fst a) k) * 2 powi (snd a + int k)
      \<le> of_int (Y * 2 ^ j) * (2::real) powi (snd a + int k)"
    by (simp only: mult_le_cancel_right_pos zero_less_power_int zero_less_numeral)
  then show ?thesis by (simp add: dyadic_value_def r F power_int_add mult_ac)
qed

lemma round53_value_ge:
  assumes "of_int Y * 2 powi F \<le> dyadic_value a" and "snd (round53 a) \<le> F"
  shows "of_int Y * 2 powi F \<le> dyadic_value (round53 a)"
proof -
  define k where "k = nat (max 0 (max (bitlen (fst a) - 53) (- 1074 - snd a)))"
  have r: "round53 a = (rne_shift (fst a) k, snd a + int k)"
    by (simp add: round53_def k_def Let_def)
  define j where "j = nat (F - (snd a + int k))"
  from assms(2) have F: "F = snd a + int k + int j" by (simp add: r j_def)
  have "of_int (Y * 2 ^ j * 2 ^ k) * (2::real) powi snd a \<le> of_int (fst a) * 2 powi snd a"
    using assms(1) by (simp add: dyadic_value_def F power_int_add mult_ac)
  then have "(of_int (Y * 2 ^ j * 2 ^ k) :: real) \<le> of_int (fst a)"
    by (simp only: mult_le_cancel_right_pos zero_less_power_int zero_less_numeral)
  then have "(Y * 2 ^ j) * 2 ^ k \<le> fst a" by (simp only: of_int_le_iff)
  then have "Y * 2 ^ j \<le> rne_shift (fst a) k" by (rule rne_shift_ge)
  then have "(of_int (Y * 2 ^ j) :: real) \<le> of_int (rne_shift (fst a) k)"
    by (simp only: of_int_le_iff)
  then have "of_int (Y * 2 ^ j) * (2::real) powi (snd a + int k)
      \<le> of_int (rne_shift (fst a) k) * 2 powi (snd a + int k)"
    by (simp only: mult_le_cancel_right_pos zero_less_power_int zero_less_numeral)
  then show ?thesis by (simp add: dyadic_value_def r F power_int_add mult_ac)
qed

lemma double_floor_value: "double_floor a = \<lfloor>dyadic_value a\<rfloor>"
proof (cases "0 \<le> snd a")
  case True
  then have "dyadic_value a = of_int (fst a * 2 ^ nat (snd a))"
    by (simp add: dyadic_value_def power_int_def)
  with True show ?thesis by (simp add: double_floor_def del: of_int_mult of_int_power)
next
  case False
  then have "dyadic_value a = of_int (fst a) / of_int (2 ^ nat (- snd a))"
    by (simp add: dyadic_value_def power_int_def field_simps)
  with False show ?thesis
    by (simp only: double_floor_def floor_divide_of_int_eq if_False)
qed

lemma double_add_value:
  "dyadic_value (fst a * 2 ^ nat (snd a - min (snd a) (snd b))
      + fst b * 2 ^ nat (snd b - min (snd a) (snd b)), min (snd a) (snd b))
   = dyadic_value a + dyadic_value b"
proof -
  let ?e = "min (snd a) (snd b)"
  have a: "snd a = ?e + int (nat (snd a - ?e))" and b: "snd b = ?e + int (nat (snd b - ?e))"
    by simp_all
  have pa: "(2::real) powi snd a = 2 powi ?e * 2 ^ nat (snd a - ?e)"
    by (subst a) (rule powi_shift)
  have pb: "(2::real) powi snd b = 2 powi ?e * 2 ^ nat (snd b - ?e)"
    by (subst b) (rule powi_shift)
  show ?thesis
    unfolding dyadic_value_def fst_conv snd_conv
    by (subst pa, subst pb) (simp add: algebra_simps)
qed

subsection \<open>The number of a passcode\<close>

lemma dyadic_value_neg: "dyadic_value (N, - int n) = of_int N / 2 ^ n"
  by (simp add: dyadic_value_def power_int_minus field_simps)

lemma dyadic_value_int: "dyadic_value (N, 0) = of_int N"
  by (simp add: dyadic_value_def)

lemma product_rounded:
  assumes "0 \<le> m" and "m < 2 ^ 53" and "m < 2 ^ n" and "1 \<le> n" and "n \<le> 1074"
  defines "p \<equiv> round53 (m * 900000, - int n)"
  shows "(0 \<le> dyadic_value p \<and> dyadic_value p \<le> 2 ^ 19)
       \<or> (- 33 \<le> snd p \<and> snd p < 0 \<and> 0 \<le> fst p \<and> fst p < 900000 * 2 ^ nat (- snd p))"
proof -
  define N where "N = m * 900000"
  define a :: dyadic where "a = (N, - int n)"
  have p: "p = round53 a" by (simp add: p_def a_def N_def)
  have N0: "0 \<le> N" using assms(1) by (simp add: N_def)
  have Nlt: "N < 900000 * 2 ^ n" using assms(3) by (simp add: N_def)
  have va: "dyadic_value a = of_int N / 2 ^ n" by (simp add: a_def dyadic_value_neg)
  show ?thesis
  proof (cases "N < 2 ^ 19 * 2 ^ n")
    case True
    then have "(of_int N :: real) < of_int (2 ^ 19 * 2 ^ n)" by (simp only: of_int_less_iff)
    then have lt: "dyadic_value a < 2 ^ 19" by (simp add: va field_simps)
    have ge: "0 \<le> dyadic_value a" using N0 by (simp add: va)
    have e: "snd (round53 a) \<le> 0"
    proof (rule round53_exponent_le)
      show "snd a \<le> 0" by (simp add: a_def)
      show "- 1074 \<le> (0::int)" by simp
      have "(2::real) ^ 19 \<le> 2 ^ 53" by simp
      with lt show "dyadic_value a < 2 powi (0 + 53)" by simp
    qed
    have "dyadic_value (round53 a) \<le> of_int (2 ^ 19) * 2 powi 0"
      using lt e by (intro round53_value_le) simp_all
    moreover have "of_int 0 * 2 powi 0 \<le> dyadic_value (round53 a)"
      using ge e by (intro round53_value_ge) simp_all
    ultimately show ?thesis by (simp add: p)
  next
    case False
    then have lo: "2 ^ (19 + n) \<le> N" by (simp add: power_add)
    have "(900000::int) * 2 ^ n \<le> 2 ^ 20 * 2 ^ n" by (intro mult_right_mono) simp_all
    with Nlt have "N < 2 ^ 20 * 2 ^ n" by linarith
    then have hi: "N < 2 ^ (20 + n)" by (simp add: power_add)
    have b: "bitlen N = 20 + int n"
    proof (rule antisym)
      from hi show "bitlen N \<le> 20 + int n"
        by (simp add: bitlen_le_iff_power nat_add_distrib)
      from lo show "20 + int n \<le> bitlen N"
        by (simp add: bitlen_ge_iff_power nat_add_distrib)
    qed
    show ?thesis
    proof (cases "n \<le> 33")
      case True
      have "round53 a = a"
        using True assms(5) by (intro round53_exact) (simp_all add: a_def b)
      with True N0 Nlt assms(4) show ?thesis by (simp add: p a_def)
    next
      case False
      then have n: "n = 33 + (n - 33)" by simp
      have k: "nat (max 0 (max (bitlen (fst a) - 53) (- 1074 - snd a))) = n - 33"
        using False assms(5) by (simp add: a_def b)
      have r: "round53 a = (rne_shift N (n - 33), - 33)"
        using False by (simp add: round53_def Let_def k) (simp add: a_def)
      have two: "(2::int) ^ n = 2 ^ 33 * 2 ^ (n - 33)"
        by (subst n) (simp only: power_add)
      have gap: "(2::int) ^ (n - 33) < 1800000 * (2 ^ n - m)"
      proof (cases "n \<le> 53")
        case True
        then have "(2::int) ^ (n - 33) \<le> 2 ^ 20" by (intro power_increasing) simp_all
        moreover from assms(3) have "1 \<le> 2 ^ n - m" by simp
        ultimately show ?thesis by simp
      next
        case False
        then have "(2::int) ^ 53 \<le> 2 ^ (n - 1)" by (intro power_increasing) simp_all
        moreover have "(2::int) ^ n = 2 * 2 ^ (n - 1)"
          using assms(4) by (cases n) simp_all
        ultimately have "2 ^ (n - 1) < 2 ^ n - m" using assms(2) by linarith
        moreover have "(2::int) ^ (n - 33) \<le> 2 ^ (n - 1)" by (intro power_increasing) simp_all
        moreover have "(0::int) < 2 ^ (n - 1)" by simp
        moreover define A B g :: int where "A = 2 ^ (n - 33)" and "B = 2 ^ (n - 1)"
          and "g = 2 ^ n - m"
        ultimately have "B < g" and "A \<le> B" and "0 < B" by simp_all
        then have "A < 1800000 * g" by linarith
        then show ?thesis by (simp add: A_def g_def)
      qed
      have "rne_shift N (n - 33) \<le> 900000 * 2 ^ 33 - 1"
      proof (rule rne_shift_below)
        show "N < 900000 * 2 ^ 33 * 2 ^ (n - 33)" using Nlt by (simp add: two)
        have "900000 * 2 ^ 33 * 2 ^ (n - 33) - N = 900000 * (2 ^ n - m)"
          by (simp add: two N_def algebra_simps)
        with gap show "2 ^ (n - 33) < 2 * (900000 * 2 ^ 33 * 2 ^ (n - 33) - N)" by simp
      qed
      moreover have "0 \<le> rne_shift N (n - 33)"
        using N0 by (intro rne_shift_ge) simp
      ultimately show ?thesis by (simp add: p r)
    qed
  qed
qed

lemma sum_rounded:
  assumes "(0 \<le> dyadic_value p \<and> dyadic_value p \<le> 2 ^ 19)
       \<or> (- 33 \<le> snd p \<and> snd p < 0 \<and> 0 \<le> fst p \<and> fst p < 900000 * 2 ^ nat (- snd p))"
  shows "100000 \<le> dyadic_value (double_add (100000, 0) p)
       \<and> dyadic_value (double_add (100000, 0) p) < 1000000"
proof -
  define a :: dyadic where
    "a = (100000 * 2 ^ nat (0 - min 0 (snd p)) + fst p * 2 ^ nat (snd p - min 0 (snd p)),
          min 0 (snd p))"
  have s: "double_add (100000, 0) p = round53 a"
    by (simp add: double_add_def a_def Let_def)
  have va: "dyadic_value a = 100000 + dyadic_value p"
    using double_add_value [of "(100000, 0)" p] by (simp add: a_def dyadic_value_int)
  from assms show ?thesis
  proof
    assume A: "0 \<le> dyadic_value p \<and> dyadic_value p \<le> 2 ^ 19"
    then have lo: "100000 \<le> dyadic_value a" and hi: "dyadic_value a \<le> 624288"
      by (simp_all add: va)
    have e: "snd (round53 a) \<le> 0"
    proof (rule round53_exponent_le)
      show "snd a \<le> 0" by (simp add: a_def)
      show "- 1074 \<le> (0::int)" by simp
      have "(624288::real) < 2 ^ 53" by simp
      with hi show "dyadic_value a < 2 powi (0 + 53)" by simp
    qed
    have "of_int 100000 * 2 powi 0 \<le> dyadic_value (round53 a)"
      using lo e by (intro round53_value_ge) simp_all
    moreover have "dyadic_value (round53 a) \<le> of_int 624288 * 2 powi 0"
      using hi e by (intro round53_value_le) simp_all
    ultimately show ?thesis by (simp add: s)
  next
    assume B: "- 33 \<le> snd p \<and> snd p < 0 \<and> 0 \<le> fst p \<and> fst p < 900000 * 2 ^ nat (- snd p)"
    define j where "j = nat (- snd p)"
    from B have j: "snd p = - int j" "j \<le> 33" unfolding j_def by linarith+
    have a: "a = (100000 * 2 ^ j + fst p, - int j)"
      by (simp add: a_def j)
    from B have lt: "100000 * 2 ^ j + fst p < 1000000 * 2 ^ j" by (simp add: j_def)
    have "(2::int) ^ j \<le> 2 ^ 33" using j(2) by (intro power_increasing) simp_all
    then have "(1000000::int) * 2 ^ j < 2 ^ 53" by simp
    with lt have "100000 * 2 ^ j + fst p < 2 ^ 53" by linarith
    then have "bitlen (fst a) \<le> 53" by (simp add: a bitlen_le_iff_power)
    then have x: "round53 a = a" using j(2) by (intro round53_exact) (simp_all add: a)
    have v: "dyadic_value a = of_int (100000 * 2 ^ j + fst p) / 2 ^ j"
      by (simp only: a dyadic_value_neg)
    from B have "(100000::int) * 2 ^ j \<le> 100000 * 2 ^ j + fst p" by simp
    then have "(of_int (100000 * 2 ^ j) :: real) \<le> of_int (100000 * 2 ^ j + fst p)"
      by (simp only: of_int_le_iff)
    then have lo: "100000 \<le> dyadic_value a" by (simp add: v field_simps)
    from lt have "(of_int (100000 * 2 ^ j + fst p) :: real) < of_int (1000000 * 2 ^ j)"
      by (simp only: of_int_less_iff)
    then have hi: "dyadic_value a < 1000000" by (simp add: v field_simps)
    from lo hi show ?thesis by (simp add: s x)
  qed
qed

lemma otp_number_in_range:
  assumes "0 \<le> m" and "m < 2 ^ 53" and "- 1074 \<le> e" and "e < 0" and "m < 2 ^ nat (- e)"
  shows "100000 \<le> double_floor (double_add (100000, 0) (double_mul (m, e) (900000, 0)))
       \<and> double_floor (double_add (100000, 0) (double_mul (m, e) (900000, 0))) \<le> 999999"
proof -
  define n where "n = nat (- e)"
  have e: "e = - int n" and n: "1 \<le> n" "n \<le> 1074" using assms(3,4) by (simp_all add: n_def)
  have m: "double_mul (m, e) (900000, 0) = round53 (m * 900000, - int n)"
    by (simp add: double_mul_def e)
  from product_rounded [OF assms(1,2) _ n] assms(5)
  have "100000 \<le> dyadic_value (double_add (100000, 0) (double_mul (m, e) (900000, 0)))
       \<and> dyadic_value (double_add (100000, 0) (double_mul (m, e) (900000, 0))) < 1000000"
    unfolding m by (intro sum_rounded) (simp add: n_def)
  then show ?thesis
    by (simp add: double_floor_value le_floor_iff floor_less_iff)
qed

section \<open>The generated passcode\<close>

lemma number_toString_digits:
  "0 \<le> i \<Longrightarrow> i < 10 ^ 21 \<Longrightarrow> number_toString i = digits (nat i)"
  by (simp add: number_toString_def)

lemma generateOtp_digits:
  "generateOtp r =
     digits (nat (double_floor
       (double_add (100000, 0) (double_mul (Rep_unit_double r) (900000, 0)))))
   \<and> 100000 \<le> nat (double_floor
       (double_add (100000, 0) (double_mul (Rep_unit_double r) (900000, 0))))
   \<and> nat (double_floor
       (double_add (100000, 0) (double_mul (Rep_unit_double r) (900000, 0)))) \<le> 999999"
proof -
  obtain m e where me: "Rep_unit_double r = (m, e)" by (cases "Rep_unit_double r")
  from Rep_unit_double [of r]
  have "0 \<le> m" and "m < 2 ^ 53" and "- 1074 \<le> e" and "e < 0" and "m < 2 ^ nat (- e)"
    by (simp_all add: me)
  from otp_number_in_range [OF this]
  have lo: "100000 \<le> double_floor (double_add (100000, 0) (double_mul (m, e) (900000, 0)))"
    and hi: "double_floor (double_add (100000, 0) (double_mul (m, e) (900000, 0))) \<le> 999999"
    by simp_all
  from lo hi
  have "number_toString (double_floor (double_add (100000, 0) (double_mul (m, e) (900000, 0))))
      = digits (nat (double_floor (double_add (100000, 0) (double_mul (m, e) (900000, 0)))))"
    by (intro number_toString_digits) simp_all
  moreover from lo
  have "100000 \<le> nat (double_floor (double_add (100000, 0) (double_mul (m, e) (900000, 0))))"
    by linarith
  moreover from hi
  have "nat (double_floor (double_add (100000, 0) (double_mul (m, e) (900000, 0)))) \<le> 999999"
    by linarith
  ultimately show ?thesis by (simp add: generateOtp_def me)
qed

lemma generateOtp_nonempty: "generateOtp r \<noteq> []"
  using generateOtp_digits [of r] by (simp add: digits_nonempty)

lemma example_code: "generateOtp one_half = ''550000''"
proof -
  have b: "bitlen 900000 \<le> 53" and c: "bitlen 1100000 \<le> 53"
    by (simp_all add: bitlen_le_iff_power)
  have "double_mul (1, - 1) (900000, 0) = (900000, - 1)"
    using b by (simp add: double_mul_def round53_exact)
  moreover have "double_add (100000, 0) (900000, - 1) = (1100000, - 1)"
    using c by (simp add: double_add_def round53_exact)
  ultimately show ?thesis
    by (simp add: generateOtp_def one_half.rep_eq double_floor_def number_toString_def
        digits.simps [of "numeral n" for n] digit_char_def)
qed

lemma example_rounded_code: "generateOtp rounded_draw = ''543465''"
proof -
  have b1: "bitlen 1997188808751856800000 = 71"
    by (rule antisym) (simp_all add: bitlen_le_iff_power bitlen_ge_iff_power)
  have b2: "bitlen 9336657606082559 = 54"
    by (rule antisym) (simp_all add: bitlen_le_iff_power bitlen_ge_iff_power)
  have m: "double_mul (2219098676390952, - 52) (900000, 0) = (7618670687682559, - 34)"
    by (simp add: double_mul_def round53_def b1 rne_shift_def Let_def)
  have a: "double_add (100000, 0) (7618670687682559, - 34) = (4668328803041280, - 33)"
    by (simp add: double_add_def round53_def b2 rne_shift_def Let_def)
  show ?thesis
    by (simp add: generateOtp_def rounded_draw.rep_eq m a double_floor_def number_toString_def
        digits.simps [of "numeral n" for n] digit_char_def)
qed

section \<open>The gate of signup and reset-password\<close>

lemma otp_rejected_iff:
  "otp_rejected (map_of reg em) submitted t \<longleftrightarrow> \<not> spec_otp_valid reg em submitted t"
  by (auto simp: otp_rejected_def spec_otp_valid_def split: option.splits)

lemma signup_gate_closed:
  "em \<noteq> [] \<Longrightarrow> truthy password \<Longrightarrow> truthy submitted \<Longrightarrow>
   otp_rejected (map_of (otps s) em) submitted (date_now e) \<Longrightarrow>
   signup e em password submitted s = (Message 400 ''Invalid or expired OTP'', s)"
  by (simp add: signup_def)

lemma signup_gate_open:
  "\<not> otp_rejected (map_of (otps s) em) submitted (date_now e) \<Longrightarrow>
   fst (signup e em password submitted s) \<noteq> Message 400 ''Invalid or expired OTP''"
  by (simp add: signup_def Let_def split: option.splits)

lemma reset_gate_closed:
  "em \<noteq> [] \<Longrightarrow> truthy newPassword \<Longrightarrow> truthy submitted \<Longrightarrow>
   otp_rejected (map_of (otps s) em) submitted (date_now e) \<Longrightarrow>
   reset_password e em submitted newPassword s = (Message 400 ''Invalid or expired OTP'', s)"
  by (simp add: reset_password_def)

lemma reset_gate_open:
  "\<not> otp_rejected (map_of (otps s) em) submitted (date_now e) \<Longrightarrow>
   fst (reset_password e em submitted newPassword s) \<noteq> Message 400 ''Invalid or expired OTP''"
  by (simp add: reset_password_def Let_def split: option.splits)

text \<open>
  C1. With the three fields of the request present, signup and reset-password answer
  \<open>Invalid or expired OTP\<close> and leave the state as it was exactly when the gate of the
  specification does not hold: an entry exists for the identity, its code is the
  submitted value as a string, and the clock is not past the expiry. The missing entry,
  the wrong code and the expired entry get the same response. A submitted number never
  equals a stored code.
\<close>

theorem otp_gate_accepts_iff:
  assumes "em \<noteq> []" and "truthy password" and "truthy submitted"
  shows "(signup e em password submitted s = (Message 400 ''Invalid or expired OTP'', s)
           \<longleftrightarrow> \<not> spec_otp_valid (otps s) em submitted (date_now e))
       \<and> (reset_password e em submitted password s = (Message 400 ''Invalid or expired OTP'', s)
           \<longleftrightarrow> \<not> spec_otp_valid (otps s) em submitted (date_now e))
       \<and> (fst (signup e em password submitted s) = Message 400 ''Invalid or expired OTP''
           \<longleftrightarrow> \<not> spec_otp_valid (otps s) em submitted (date_now e))
       \<and> (fst (reset_password e em submitted password s) = Message 400 ''Invalid or expired OTP''
           \<longleftrightarrow> \<not> spec_otp_valid (otps s) em submitted (date_now e))
       \<and> (otp_rejected (map_of (otps s) em) submitted (date_now e)
           \<longleftrightarrow> \<not> spec_otp_valid (otps s) em submitted (date_now e))
       \<and> \<not> spec_otp_valid (otps s) em (JNum n) (date_now e)
       \<and> otp_rejected (map_of (otps s) em) (JNum n) (date_now e)"
proof -
  let ?rej = "otp_rejected (map_of (otps s) em) submitted (date_now e)"
  let ?bad = "Message 400 ''Invalid or expired OTP''"
  have a: "?rej \<longleftrightarrow> \<not> spec_otp_valid (otps s) em submitted (date_now e)"
    by (rule otp_rejected_iff)
  have s1: "?rej \<Longrightarrow> signup e em password submitted s = (?bad, s)"
    using assms by (rule signup_gate_closed)
  have r1: "?rej \<Longrightarrow> reset_password e em submitted password s = (?bad, s)"
    using assms(1,2,3) by (rule reset_gate_closed)
  have s2: "\<not> ?rej \<Longrightarrow> fst (signup e em password submitted s) \<noteq> ?bad"
    by (rule signup_gate_open)
  have r2: "\<not> ?rej \<Longrightarrow> fst (reset_password e em submitted password s) \<noteq> ?bad"
    by (rule reset_gate_open)
  have n: "\<not> spec_otp_valid (otps s) em (JNum n) (date_now e)"
    by (simp add: spec_otp_valid_def split: option.splits)
  have n': "otp_rejected (map_of (otps s) em) (JNum n) (date_now e)"
    by (simp add: otp_rejected_def split: option.splits)
  from s1 s2 have c1: "signup e em password submitted s = (?bad, s) \<longleftrightarrow> ?rej"
    by (metis fst_conv)
  from r1 r2 have c2: "reset_password e em submitted password s = (?bad, s) \<longleftrightarrow> ?rej"
    by (metis fst_conv)
  from s1 s2 have c3: "fst (signup e em password submitted s) = ?bad \<longleftrightarrow> ?rej"
    by (metis fst_conv)
  from r1 r2 have c4: "fst (reset_password e em submitted password s) = ?bad \<longleftrightarrow> ?rej"
    by (metis fst_conv)
  show ?thesis using c1 c2 c3 c4 n n' a by simp
qed

theorem otp_gate_accepts_iff_witness:
  "''a@x.com'' \<noteq> [] \<and> truthy (JStr ''pw'') \<and> truthy (JStr ''550000'')
   \<and> spec_otp_valid (otps example_server) ''a@x.com'' (JStr ''550000'')
       (date_now (example_env 301000))
   \<and> signup (example_env 301000) ''a@x.com'' (JStr ''pw'') (JStr ''550000'') example_server
       \<noteq> (Message 400 ''Invalid or expired OTP'', example_server)
   \<and> reset_password (example_env 301000) ''a@x.com'' (JStr ''550000'') (JStr ''pw'')
       example_server \<noteq> (Message 400 ''Invalid or expired OTP'', example_server)
   \<and> signup (example_env 301001) ''a@x.com'' (JStr ''pw'') (JStr ''550000'') example_server
       = (Message 400 ''Invalid or expired OTP'', example_server)
   \<and> signup (example_env 1000) ''a@x.com'' (JStr ''pw'') (JStr ''550001'') example_server
       = (Message 400 ''Invalid or expired OTP'', example_server)
   \<and> signup (example_env 1000) ''b@x.com'' (JStr ''pw'') (JStr ''550000'') example_server
       = (Message 400 ''Invalid or expired OTP'', example_server)"
  using otp_gate_accepts_iff [where em = "''a@x.com''" and password = "JStr ''pw''"
      and submitted = "JStr ''550000''" and e = "example_env 301000" and s = example_server]
    otp_gate_accepts_iff [where em = "''a@x.com''" and password = "JStr ''pw''"
      and submitted = "JStr ''550000''" and e = "example_env 301001" and s = example_server]
    otp_gate_accepts_iff [where em = "''a@x.com''" and password = "JStr ''pw''"
      and submitted = "JStr ''550001''" and e = "example_env 1000" and s = example_server]
    otp_gate_accepts_iff [where em = "''b@x.com''" and password = "JStr ''pw''"
      and submitted = "JStr ''550000''" and e = "example_env 1000" and s = example_server]
  by (simp add: spec_otp_valid_def example_server_def example_env_def)

section \<open>Issuing a passcode\<close>

lemma send_otp_stores:
  "em \<noteq> [] \<Longrightarrow>
   otps (snd (send_otp e em s)) =
     AList.update em \<lparr>otp = generateOtp (math_random e), expiresAt = date_now e + 300000\<rparr>
       (otps s)"
  by (simp add: send_otp_def Let_def)

lemma send_otp_lookup:
  "em \<noteq> [] \<Longrightarrow>
   map_of (otps (snd (send_otp e em s))) em =
     Some \<lparr>otp = generateOtp (math_random e), expiresAt = date_now e + 300000\<rparr>"
  by (simp add: send_otp_stores update_conv')

lemma send_otp_response:
  "em \<noteq> [] \<Longrightarrow>
   fst (send_otp e em s) =
     (if mail_fails e then Message 500 ''Failed to send email OTP''
      else Message 200 ''OTP sent to your email'')"
  by (simp add: send_otp_def Let_def)

lemma send_otp_sent:
  "em \<noteq> [] \<Longrightarrow>
   sent (snd (send_otp e em s)) =
     (if mail_fails e then sent s
      else sent s @ [mailOptions (EMAIL_USER e) em (generateOtp (math_random e))])"
  by (simp add: send_otp_def Let_def)

lemma send_otp_storage:
  "users (snd (send_otp e em s)) = users s
   \<and> login_events (snd (send_otp e em s)) = login_events s
   \<and> next_id (snd (send_otp e em s)) = next_id s"
  by (simp add: send_otp_def Let_def)

text \<open>
  C3, as the specification states it, fails in two points. Issuing does not always
  report success: with a transport that throws the response is status 500. And no
  response returns the code: for the draw 1/2 the code is \<open>550000\<close>, and the response of
  the successful request is the fixed message.
\<close>

theorem issue_otp_response_counterexample:
  "fst (send_otp ((example_env 1000)\<lparr>mail_fails := True\<rparr>) ''a@x.com'' initial)
     = Message 500 ''Failed to send email OTP''
   \<and> generateOtp (math_random (example_env 1000)) = ''550000''
   \<and> fst (send_otp (example_env 1000) ''a@x.com'' initial)
     = Message 200 ''OTP sent to your email''"
  by (simp add: send_otp_response) (simp add: example_env_def example_code)

text \<open>
  C3, amended. For a non-empty identity and every double in \<open>[0, 1)\<close> that
  \<open>Math.random()\<close> draws, the handler of send-otp generates a code of six decimal digits
  that does not start with \<open>0\<close> and reads as a number from 100000 to 999999, and stores
  for the identity the entry with that code and the expiry five minutes (300000 ms)
  after the clock, before it sends anything and whatever the transport does. The code
  is not returned. It is given to the mailer: when the transport works, the response is
  status 200 with a fixed message and the message sent to the identity carries the
  code; when the transport throws, the response is status 500 and nothing is sent.
\<close>

theorem issue_otp:
  assumes "em \<noteq> []"
  shows "length (generateOtp (math_random e)) = 6
       \<and> (\<forall>c\<in>set (generateOtp (math_random e)). is_digit c)
       \<and> hd (generateOtp (math_random e)) \<noteq> CHR ''0''
       \<and> 100000 \<le> decimal_value (generateOtp (math_random e))
       \<and> decimal_value (generateOtp (math_random e)) \<le> 999999
       \<and> map_of (otps (snd (send_otp e em s))) em =
           Some \<lparr>otp = generateOtp (math_random e), expiresAt = date_now e + 5 * 60 * 1000\<rparr>
       \<and> users (snd (send_otp e em s)) = users s
       \<and> (if mail_fails e
          then fst (send_otp e em s) = Message 500 ''Failed to send email OTP''
             \<and> sent (snd (send_otp e em s)) = sent s
          else fst (send_otp e em s) = Message 200 ''OTP sent to your email''
             \<and> sent (snd (send_otp e em s)) =
                 sent s @ [\<lparr>mail_from = EMAIL_USER e, mail_to = em,
                            subject = ''Your Jugaad OTP'',
                            text_body = ''Your Jugaad verification code is ''
                              @ generateOtp (math_random e)
                              @ ''. It is valid for 5 minutes.''\<rparr>])"
proof -
  let ?n = "nat (double_floor
       (double_add (100000, 0) (double_mul (Rep_unit_double (math_random e)) (900000, 0))))"
  from generateOtp_digits [of "math_random e"]
  have g: "generateOtp (math_random e) = digits ?n" and lo: "100000 \<le> ?n" and hi: "?n \<le> 999999"
    by simp_all
  have 1: "length (digits ?n) = 6" using lo hi by (rule length_digits_six)
  have 2: "\<forall>c\<in>set (digits ?n). is_digit c" by (rule digits_all_digits)
  have 3: "hd (digits ?n) \<noteq> CHR ''0''" using lo by (intro hd_digits) simp
  have 4: "decimal_value (digits ?n) = ?n" by (rule decimal_value_digits)
  have 5: "map_of (otps (snd (send_otp e em s))) em =
           Some \<lparr>otp = generateOtp (math_random e), expiresAt = date_now e + 5 * 60 * 1000\<rparr>"
    using assms by (simp add: send_otp_lookup)
  have 6: "users (snd (send_otp e em s)) = users s" by (simp add: send_otp_storage)
  have 7: "if mail_fails e
          then fst (send_otp e em s) = Message 500 ''Failed to send email OTP''
             \<and> sent (snd (send_otp e em s)) = sent s
          else fst (send_otp e em s) = Message 200 ''OTP sent to your email''
             \<and> sent (snd (send_otp e em s)) =
                 sent s @ [\<lparr>mail_from = EMAIL_USER e, mail_to = em,
                            subject = ''Your Jugaad OTP'',
                            text_body = ''Your Jugaad verification code is ''
                              @ generateOtp (math_random e)
                              @ ''. It is valid for 5 minutes.''\<rparr>]"
    using assms by (simp add: send_otp_response send_otp_sent mailOptions_def)
  from 1 2 3 4 lo hi have "length (generateOtp (math_random e)) = 6
       \<and> (\<forall>c\<in>set (generateOtp (math_random e)). is_digit c)
       \<and> hd (generateOtp (math_random e)) \<noteq> CHR ''0''
       \<and> 100000 \<le> decimal_value (generateOtp (math_random e))
       \<and> decimal_value (generateOtp (math_random e)) \<le> 999999"
    unfolding g by simp
  with 5 6 7 show ?thesis by blast
qed

theorem issue_otp_witness:
  "''a@x.com'' \<noteq> []
   \<and> generateOtp (math_random (example_env 1000)) = ''550000''
   \<and> length ''550000'' = 6 \<and> decimal_value ''550000'' = 550000
   \<and> map_of (otps (snd (send_otp (example_env 1000) ''a@x.com'' initial))) ''a@x.com''
       = Some \<lparr>otp = ''550000'', expiresAt = 301000\<rparr>
   \<and> fst (send_otp (example_env 1000) ''a@x.com'' initial) = Message 200 ''OTP sent to your email''
   \<and> sent (snd (send_otp (example_env 1000) ''a@x.com'' initial)) =
       [\<lparr>mail_from = ''jugaad@example.com'', mail_to = ''a@x.com'', subject = ''Your Jugaad OTP'',
         text_body = ''Your Jugaad verification code is 550000. It is valid for 5 minutes.''\<rparr>]
   \<and> generateOtp (math_random ((example_env 1000)\<lparr>math_random := rounded_draw\<rparr>)) = ''543465''
   \<and> map_of (otps (snd (send_otp ((example_env 1000)\<lparr>math_random := rounded_draw\<rparr>)
         ''a@x.com'' initial))) ''a@x.com''
       = Some \<lparr>otp = ''543465'', expiresAt = 301000\<rparr>"
proof -
  have r: "math_random (example_env 1000) = one_half" "date_now (example_env 1000) = 1000"
    "\<not> mail_fails (example_env 1000)" "EMAIL_USER (example_env 1000) = ''jugaad@example.com''"
    by (simp_all add: example_env_def)
  have i: "sent initial = []" by (simp add: initial_def)
  show ?thesis
    using issue_otp [of "''a@x.com''" "example_env 1000" initial]
      issue_otp [of "''a@x.com''" "(example_env 1000)\<lparr>math_random := rounded_draw\<rparr>" initial]
    by (simp add: r i example_code example_rounded_code decimal_value_def digit_value_def)
qed

section \<open>What the gated handlers do to the registry\<close>

lemma getUserByEmail_email: "getUserByEmail us em = Some u \<Longrightarrow> email u = em"
  by (auto simp: getUserByEmail_def find_Some_iff)

lemma signup_result:
  assumes "em \<noteq> []" and "truthy password" and "truthy submitted"
    and "\<not> otp_rejected (map_of (otps s) em) submitted (date_now e)"
  shows "signup e em password submitted s =
     (if select_fails e then (Message 500 ''Server error during signup'', s)
      else if getUserByEmail (users s) em \<noteq> None
      then (Message 400 ''User already exists, please login'', s)
      else case bcrypt_hash e password of
             None \<Rightarrow> (Message 500 ''Server error during signup'', s)
           | Some h \<Rightarrow>
               if write_fails e then (Message 500 ''Server error during signup'', s)
               else (MessageEmail ''Signup successful'' em,
                     s\<lparr>users := users s @ [insert_user (next_id s) em h],
                       next_id := Suc (next_id s), otps := delete_property em (otps s)\<rparr>))"
  using assms by (auto simp: signup_def Let_def insert_user_def split: option.splits)

lemma reset_result:
  assumes "em \<noteq> []" and "truthy submitted" and "truthy newPassword"
    and "\<not> otp_rejected (map_of (otps s) em) submitted (date_now e)"
  shows "reset_password e em submitted newPassword s =
     (if select_fails e then (Message 500 ''Server error during reset'', s)
      else case getUserByEmail (users s) em of
             None \<Rightarrow> (Message 404 ''User not found'', s)
           | Some u \<Rightarrow>
              (case bcrypt_hash e newPassword of
                 None \<Rightarrow> (Message 500 ''Server error during reset'', s)
               | Some h \<Rightarrow>
                   if write_fails e then (Message 500 ''Server error during reset'', s)
                   else (Message 200 ''Password reset successful'',
                         s\<lparr>users := update_password_hash (uid u) h (users s),
                           otps := delete_property em (otps s)\<rparr>)))"
  using assms by (simp add: reset_password_def)

lemma map_of_delete_same:
  "k \<noteq> ''__proto__'' \<Longrightarrow> map_of (delete_property k al) k = None"
  by (simp add: delete_property_def delete_conv')

lemma distinct_delete_property:
  "distinct (map fst al) \<Longrightarrow> distinct (map fst (delete_property k al))"
  by (simp add: delete_property_def distinct_delete)

lemma delete_property_keys: "fst ` set (delete_property k al) \<subseteq> fst ` set al"
  using dom_delete_subset [of k al] by (simp add: delete_property_def)

text \<open>
  C2, amended. With the three fields present, the gate of signup and of reset-password
  is tested before storage is read: when it rejects, the response is
  \<open>Invalid or expired OTP\<close> whatever storage holds or does. When it passes, the handler
  runs \<open>delete otps[email]\<close> exactly when it succeeds (the account is created, the hash
  is overwritten), and for every identity other than the key \<open>__proto__\<close> the entry is
  then gone; on every other outcome, the duplicate account of signup and the unknown
  identity of reset-password among them, the whole state is as before and the entry
  stays.
\<close>

theorem gate_consumes_on_success_only:
  assumes "em \<noteq> []" and "truthy password" and "truthy submitted"
  shows "(otp_rejected (map_of (otps s) em) submitted (date_now e) \<longrightarrow>
            signup e em password submitted s = (Message 400 ''Invalid or expired OTP'', s)
          \<and> reset_password e em submitted password s = (Message 400 ''Invalid or expired OTP'', s))
       \<and> (\<not> otp_rejected (map_of (otps s) em) submitted (date_now e) \<longrightarrow>
            (if fst (signup e em password submitted s) = MessageEmail ''Signup successful'' em
             then otps (snd (signup e em password submitted s)) = delete_property em (otps s)
                \<and> (em \<noteq> ''__proto__'' \<longrightarrow>
                     map_of (otps (snd (signup e em password submitted s))) em = None)
             else snd (signup e em password submitted s) = s)
          \<and> (if fst (reset_password e em submitted password s)
                  = Message 200 ''Password reset successful''
             then otps (snd (reset_password e em submitted password s))
                    = delete_property em (otps s)
                \<and> (em \<noteq> ''__proto__'' \<longrightarrow>
                     map_of (otps (snd (reset_password e em submitted password s))) em = None)
             else snd (reset_password e em submitted password s) = s)
          \<and> (\<not> select_fails e \<and> getUserByEmail (users s) em \<noteq> None \<longrightarrow>
                signup e em password submitted s
                  = (Message 400 ''User already exists, please login'', s))
          \<and> (\<not> select_fails e \<and> getUserByEmail (users s) em = None \<longrightarrow>
                reset_password e em submitted password s = (Message 404 ''User not found'', s)))"
proof (intro conjI impI)
  assume r: "otp_rejected (map_of (otps s) em) submitted (date_now e)"
  show "signup e em password submitted s = (Message 400 ''Invalid or expired OTP'', s)"
    using assms r by (rule signup_gate_closed)
  show "reset_password e em submitted password s = (Message 400 ''Invalid or expired OTP'', s)"
    using assms r by (rule reset_gate_closed)
next
  assume a: "\<not> otp_rejected (map_of (otps s) em) submitted (date_now e)"
  note su = signup_result [OF assms a]
  note re = reset_result [OF assms(1,3,2) a]
  show "if fst (signup e em password submitted s) = MessageEmail ''Signup successful'' em
        then otps (snd (signup e em password submitted s)) = delete_property em (otps s)
           \<and> (em \<noteq> ''__proto__'' \<longrightarrow>
                map_of (otps (snd (signup e em password submitted s))) em = None)
        else snd (signup e em password submitted s) = s"
    unfolding su by (simp add: map_of_delete_same split: option.splits)
  show "if fst (reset_password e em submitted password s) = Message 200 ''Password reset successful''
        then otps (snd (reset_password e em submitted password s)) = delete_property em (otps s)
           \<and> (em \<noteq> ''__proto__'' \<longrightarrow>
                map_of (otps (snd (reset_password e em submitted password s))) em = None)
        else snd (reset_password e em submitted password s) = s"
    unfolding re by (simp add: map_of_delete_same split: option.splits)
next
  assume a: "\<not> otp_rejected (map_of (otps s) em) submitted (date_now e)"
    and b: "\<not> select_fails e \<and> getUserByEmail (users s) em \<noteq> None"
  show "signup e em password submitted s = (Message 400 ''User already exists, please login'', s)"
    unfolding signup_result [OF assms a] using b by simp
next
  assume a: "\<not> otp_rejected (map_of (otps s) em) submitted (date_now e)"
    and b: "\<not> select_fails e \<and> getUserByEmail (users s) em = None"
  show "reset_password e em submitted password s = (Message 404 ''User not found'', s)"
    unfolding reset_result [OF assms(1,3,2) a] using b by simp
qed

lemma example_lookup: "getUserByEmail (users example_server) ''a@x.com'' = Some example_user"
  by (simp add: example_server_def getUserByEmail_def example_user_def insert_user_def)

lemma example_gate:
  "t \<le> 301000 \<Longrightarrow>
   \<not> otp_rejected (map_of (otps example_server) ''a@x.com'') (JStr ''550000'') (date_now (example_env t))"
  by (simp add: example_server_def example_env_def otp_rejected_def)

text \<open>
  C2, as the specification states it, fails. The gate only reads the entry. In the
  example state the identity \<open>a@x.com\<close> has an account and a valid entry: signup passes
  the gate, is rejected as a duplicate account, and the entry is still in the registry.
  Likewise a reset-password for \<open>b@x.com\<close>, which has a valid entry and no account, is
  answered \<open>User not found\<close> and leaves the entry where it was.
\<close>

theorem gate_does_not_consume_counterexample:
  "\<not> otp_rejected (map_of (otps example_server) ''a@x.com'') (JStr ''550000'')
       (date_now (example_env 1000))
   \<and> signup (example_env 1000) ''a@x.com'' (JStr ''pw'') (JStr ''550000'') example_server
       = (Message 400 ''User already exists, please login'', example_server)
   \<and> map_of (otps (snd (signup (example_env 1000) ''a@x.com'' (JStr ''pw'') (JStr ''550000'')
         example_server))) ''a@x.com'' = Some \<lparr>otp = ''550000'', expiresAt = 301000\<rparr>
   \<and> \<not> otp_rejected
         (map_of [(''b@x.com'', \<lparr>otp = ''550000'', expiresAt = 301000\<rparr>)] ''b@x.com'')
         (JStr ''550000'') (date_now (example_env 1000))
   \<and> reset_password (example_env 1000) ''b@x.com'' (JStr ''550000'') (JStr ''pw'')
         (initial\<lparr>otps := [(''b@x.com'', \<lparr>otp = ''550000'', expiresAt = 301000\<rparr>)]\<rparr>)
       = (Message 404 ''User not found'',
          initial\<lparr>otps := [(''b@x.com'', \<lparr>otp = ''550000'', expiresAt = 301000\<rparr>)]\<rparr>)"
proof -
  have r: "\<not> otp_rejected
         (map_of [(''b@x.com'', \<lparr>otp = ''550000'', expiresAt = 301000\<rparr>)] ''b@x.com'')
         (JStr ''550000'') (date_now (example_env 1000))"
    by (simp add: otp_rejected_def example_env_def)
  have n: "reset_password (example_env 1000) ''b@x.com'' (JStr ''550000'') (JStr ''pw'')
         (initial\<lparr>otps := [(''b@x.com'', \<lparr>otp = ''550000'', expiresAt = 301000\<rparr>)]\<rparr>)
       = (Message 404 ''User not found'',
          initial\<lparr>otps := [(''b@x.com'', \<lparr>otp = ''550000'', expiresAt = 301000\<rparr>)]\<rparr>)"
    by (simp add: reset_password_def otp_rejected_def example_env_def initial_def
        getUserByEmail_def)
  have g: "\<not> otp_rejected (map_of (otps example_server) ''a@x.com'') (JStr ''550000'')
       (date_now (example_env 1000))"
    by (rule example_gate) simp
  have "signup (example_env 1000) ''a@x.com'' (JStr ''pw'') (JStr ''550000'') example_server
       = (Message 400 ''User already exists, please login'', example_server)"
    by (subst signup_result [OF _ _ _ g]) (simp_all add: example_lookup, simp add: example_env_def)
  moreover have "map_of (otps example_server) ''a@x.com'' = Some \<lparr>otp = ''550000'', expiresAt = 301000\<rparr>"
    by (simp add: example_server_def)
  ultimately show ?thesis using g r n by simp
qed

lemma example_reset:
  "t \<le> 301000 \<Longrightarrow>
   reset_password (example_env t) ''a@x.com'' (JStr ''550000'') (JStr (p # ps)) example_server =
     (Message 200 ''Password reset successful'',
      example_server\<lparr>users := [example_user\<lparr>password_hash := ''$2b$10$'' @ p # ps\<rparr>],
                     otps := []\<rparr>)"
  by (subst reset_result [OF _ _ _ example_gate])
    (simp_all add: example_lookup, simp add: example_env_def example_hash_def example_server_def
      update_password_hash_def example_user_def insert_user_def delete_property_def)

theorem gate_consumes_on_success_only_witness:
  "''a@x.com'' \<noteq> [] \<and> truthy (JStr ''pw'') \<and> truthy (JStr ''550000'')
   \<and> ''a@x.com'' \<noteq> ''__proto__''
   \<and> \<not> otp_rejected (map_of (otps example_server) ''a@x.com'') (JStr ''550000'')
         (date_now (example_env 1000))
   \<and> \<not> select_fails (example_env 1000)
   \<and> getUserByEmail (users example_server) ''a@x.com'' = Some example_user
   \<and> signup (example_env 1000) ''a@x.com'' (JStr ''pw'') (JStr ''550000'') example_server
       = (Message 400 ''User already exists, please login'', example_server)
   \<and> fst (reset_password (example_env 1000) ''a@x.com'' (JStr ''550000'') (JStr ''pw'') example_server)
       = Message 200 ''Password reset successful''
   \<and> map_of (otps (snd (reset_password (example_env 1000) ''a@x.com'' (JStr ''550000'')
         (JStr ''pw'') example_server))) ''a@x.com'' = None"
  using gate_consumes_on_success_only [where em = "''a@x.com''" and password = "JStr ''pw''"
      and submitted = "JStr ''550000''" and e = "example_env 1000" and s = example_server]
    example_gate [of 1000] example_lookup example_reset [of 1000 "CHR ''p''" "''w''"]
  by (simp add: example_env_def)

section \<open>One entry for an identity\<close>

lemma entries_for_distinct: "distinct (map fst reg) \<Longrightarrow> entries_for em reg \<le> 1"
proof (induction reg)
  case Nil
  then show ?case by (simp add: entries_for_def)
next
  case (Cons kv reg)
  show ?case
  proof (cases "fst kv = em")
    case True
    with Cons.prems have "em \<notin> fst ` set reg" by auto
    then have "filter (\<lambda>kv. fst kv = em) reg = []" by (auto simp: filter_empty_conv)
    with True show ?thesis by (simp add: entries_for_def)
  next
    case False
    with Cons show ?thesis by (simp add: entries_for_def)
  qed
qed

lemma send_otp_otps:
  "otps (snd (send_otp e em s)) = otps s
   \<or> otps (snd (send_otp e em s)) =
       AList.update em \<lparr>otp = generateOtp (math_random e), expiresAt = date_now e + 300000\<rparr> (otps s)"
  by (simp add: send_otp_def Let_def)

lemma signup_otps:
  "otps (snd (signup e em password submitted s)) = otps s
   \<or> otps (snd (signup e em password submitted s)) = delete_property em (otps s)"
  by (simp add: signup_def Let_def split: option.splits)

lemma reset_otps:
  "otps (snd (reset_password e em submitted newPassword s)) = otps s
   \<or> otps (snd (reset_password e em submitted newPassword s)) = delete_property em (otps s)"
  by (simp add: reset_password_def split: option.splits)

lemma login_otps: "otps (snd (login e em password s)) = otps s"
  by (simp add: login_def split: option.splits)

lemma get_user_otps: "otps (snd (get_user e em s)) = otps s"
  by (simp add: get_user_def split: option.splits)

lemma save_profile_otps: "otps (snd (save_profile e em p tags s)) = otps s"
  by (simp add: save_profile_def Let_def split: option.splits)

lemma handle_distinct:
  assumes "distinct (map fst (otps s))"
  shows "distinct (map fst (otps (snd (handle e q s))))"
proof (cases q)
  case (SendOtp em)
  with assms send_otp_otps [of e em s] show ?thesis by (auto simp: distinct_update)
next
  case (Signup em password submitted)
  with assms signup_otps [of e em password submitted s] show ?thesis
    by (auto simp: distinct_delete_property)
next
  case (Login em password)
  with assms show ?thesis by (simp add: login_otps)
next
  case (ResetPassword em submitted newPassword)
  with assms reset_otps [of e em submitted newPassword s] show ?thesis
    by (auto simp: distinct_delete_property)
next
  case (GetUser em)
  with assms show ?thesis by (simp add: get_user_otps)
next
  case (SaveProfile em p tags)
  with assms show ?thesis by (simp add: save_profile_otps)
qed

lemma run_distinct:
  "distinct (map fst (otps s)) \<Longrightarrow> distinct (map fst (otps (run rs s)))"
proof (induction rs arbitrary: s)
  case Nil
  then show ?case by simp
next
  case (Cons r rs)
  obtain e q where r: "r = (e, q)" by (cases r)
  from Cons.prems have "distinct (map fst (otps (snd (handle e q s))))"
    by (rule handle_distinct)
  then show ?case unfolding r by (simp add: Cons.IH)
qed

lemma handle_keys:
  assumes "\<forall>k. q \<noteq> SendOtp k"
  shows "set (map fst (otps (snd (handle e q s)))) \<subseteq> set (map fst (otps s))"
proof (cases q)
  case (SendOtp em)
  with assms show ?thesis by simp
next
  case (Signup em password submitted)
  from signup_otps [of e em password submitted s] show ?thesis
    unfolding Signup using delete_property_keys [of em "otps s"] by (elim disjE) simp_all
next
  case (Login em password)
  then show ?thesis by (simp add: login_otps)
next
  case (ResetPassword em submitted newPassword)
  from reset_otps [of e em submitted newPassword s] show ?thesis
    unfolding ResetPassword using delete_property_keys [of em "otps s"]
    by (elim disjE) simp_all
next
  case (GetUser em)
  then show ?thesis by (simp add: get_user_otps)
next
  case (SaveProfile em p tags)
  then show ?thesis by (simp add: save_profile_otps)
qed

text \<open>
  C4. After any sequence of requests from the start of the process the registry holds at
  most one entry for an identity, and the same holds from any state whose keys are
  distinct. Issuing a passcode for an identity that has an entry keeps the list of keys
  and replaces the entry; for a new identity it adds one key; other identities keep
  their entries. Every request other than send-otp leaves no key in the registry that
  was not there before.
\<close>

theorem one_entry_per_identity:
  "entries_for em (otps (run rs initial)) \<le> 1
   \<and> (distinct (map fst (otps s)) \<longrightarrow>
        distinct (map fst (otps (run rs s))) \<and> entries_for em (otps (run rs s)) \<le> 1)
   \<and> (k \<noteq> [] \<longrightarrow>
        map fst (otps (snd (send_otp e k s))) =
          (if k \<in> set (map fst (otps s)) then map fst (otps s) else map fst (otps s) @ [k])
      \<and> map_of (otps (snd (send_otp e k s))) k =
          Some \<lparr>otp = generateOtp (math_random e), expiresAt = date_now e + 5 * 60 * 1000\<rparr>
      \<and> (\<forall>k'. k' \<noteq> k \<longrightarrow>
            map_of (otps (snd (send_otp e k s))) k' = map_of (otps s) k'))
   \<and> ((\<forall>k. q \<noteq> SendOtp k) \<longrightarrow>
        set (map fst (otps (snd (handle e q s)))) \<subseteq> set (map fst (otps s)))"
proof (intro conjI impI allI)
  have "distinct (map fst (otps (run rs initial)))"
    by (rule run_distinct) (simp add: initial_def)
  then show "entries_for em (otps (run rs initial)) \<le> 1" by (rule entries_for_distinct)
next
  assume d: "distinct (map fst (otps s))"
  then show "distinct (map fst (otps (run rs s)))" by (rule run_distinct)
  then show "entries_for em (otps (run rs s)) \<le> 1" by (rule entries_for_distinct)
next
  assume k: "k \<noteq> []"
  show "map fst (otps (snd (send_otp e k s))) =
          (if k \<in> set (map fst (otps s)) then map fst (otps s) else map fst (otps s) @ [k])"
    using k by (simp add: send_otp_stores update_keys)
  show "map_of (otps (snd (send_otp e k s))) k =
          Some \<lparr>otp = generateOtp (math_random e), expiresAt = date_now e + 5 * 60 * 1000\<rparr>"
    using k by (simp add: send_otp_lookup)
  fix k' assume "k' \<noteq> k"
  then show "map_of (otps (snd (send_otp e k s))) k' = map_of (otps s) k'"
    using k by (simp add: send_otp_stores update_conv')
next
  assume "\<forall>k. q \<noteq> SendOtp k"
  then show "set (map fst (otps (snd (handle e q s)))) \<subseteq> set (map fst (otps s))"
    by (rule handle_keys)
qed

lemma example_send:
  "otps (snd (send_otp (example_env t) (c # cs) s)) =
     AList.update (c # cs) \<lparr>otp = ''550000'', expiresAt = t + 300000\<rparr> (otps s)"
  by (simp add: send_otp_stores) (simp add: example_env_def example_code)

theorem one_entry_per_identity_witness:
  "distinct (map fst (otps example_server)) \<and> ''a@x.com'' \<noteq> []
   \<and> (\<forall>k. Login ''a@x.com'' (JStr ''secret'') \<noteq> SendOtp k)
   \<and> otps (run [(example_env 1000, SendOtp ''a@x.com''), (example_env 2000, SendOtp ''a@x.com'')]
        initial) = [(''a@x.com'', \<lparr>otp = ''550000'', expiresAt = 302000\<rparr>)]
   \<and> entries_for ''a@x.com''
        (otps (run [(example_env 1000, SendOtp ''a@x.com''),
                    (example_env 2000, SendOtp ''a@x.com'')] initial)) = 1
   \<and> entries_for ''a@x.com''
        (otps (run [(example_env 1000, SendOtp ''a@x.com''),
                    (example_env 2000, SendOtp ''a@x.com'')] example_server)) = 1
   \<and> map fst (otps (snd (send_otp (example_env 2000) ''a@x.com'' example_server))) = [''a@x.com'']
   \<and> otps (snd (handle (example_env 2000) (Login ''a@x.com'' (JStr ''secret'')) example_server))
       = otps example_server"
  using one_entry_per_identity [where em = "''a@x.com''" and k = "''a@x.com''"
      and rs = "[(example_env 1000, SendOtp ''a@x.com''), (example_env 2000, SendOtp ''a@x.com'')]"
      and s = example_server and e = "example_env 2000"
      and q = "Login ''a@x.com'' (JStr ''secret'')"]
  by (simp add: example_send login_otps entries_for_def initial_def)
    (simp add: example_server_def)

section \<open>Signup\<close>

lemma getUserByEmail_append:
  "getUserByEmail (us @ vs) em =
     (case getUserByEmail us em of None \<Rightarrow> getUserByEmail vs em | Some u \<Rightarrow> Some u)"
  by (induction us) (simp_all add: getUserByEmail_def)

lemma getUserByEmail_None_filter:
  "getUserByEmail us em = None \<Longrightarrow> filter (\<lambda>u. email u = em) us = []"
  by (auto simp: getUserByEmail_def find_None_iff filter_empty_conv)

lemma signup_success:
  assumes "em \<noteq> []" and "truthy password" and "truthy submitted"
    and "\<not> otp_rejected (map_of (otps s) em) submitted (date_now e)"
    and "\<not> select_fails e" and "\<not> write_fails e"
    and "getUserByEmail (users s) em = None"
    and "bcrypt_hash e password = Some h"
  shows "signup e em password submitted s =
     (MessageEmail ''Signup successful'' em,
      s\<lparr>users := users s @ [insert_user (next_id s) em h],
        next_id := Suc (next_id s), otps := delete_property em (otps s)\<rparr>)"
  unfolding signup_result [OF assms(1-4)] using assms(5-8) by simp

lemma signup_conflict:
  assumes "em \<noteq> []" and "truthy password" and "truthy submitted"
    and "\<not> otp_rejected (map_of (otps s) em) submitted (date_now e)"
    and "\<not> select_fails e"
    and "getUserByEmail (users s) em \<noteq> None"
  shows "signup e em password submitted s =
     (Message 400 ''User already exists, please login'', s)"
  unfolding signup_result [OF assms(1-4)] using assms(5,6) by simp

lemma fresh_code_passes:
  assumes "em \<noteq> []" and "date_now e2 \<le> date_now e1 + 300000"
  shows "\<not> otp_rejected (map_of (otps (snd (send_otp e1 em s))) em)
           (JStr (generateOtp (math_random e1))) (date_now e2)"
  using assms by (simp add: send_otp_lookup otp_rejected_def)

text \<open>
  C5. When the identity has no account, the three fields are present, the gate passes,
  storage works and bcrypt returns the hash \<open>h\<close> of the password, signup answers
  success and appends one row to \<open>users\<close>: afterwards exactly one row has that email,
  its \<open>password_hash\<close> is \<open>h\<close> (so it is not the plaintext whenever bcrypt's output
  is not), and no profile column is populated. After that, a new passcode for the
  identity and a signup with it, within the five minutes and with storage readable, is
  answered \<open>User already exists, please login\<close> and changes nothing.
\<close>

theorem signup_creates_one_account:
  assumes "em \<noteq> []" and "truthy password" and "truthy submitted"
    and "\<not> otp_rejected (map_of (otps s) em) submitted (date_now e)"
    and "\<not> select_fails e" and "\<not> write_fails e"
    and "getUserByEmail (users s) em = None"
    and "bcrypt_hash e password = Some h"
  shows "fst (signup e em password submitted s) = MessageEmail ''Signup successful'' em
       \<and> users (snd (signup e em password submitted s)) =
           users s @ [\<lparr>uid = next_id s, email = em, password_hash = h,
                       profile = no_scalars, work_tags = None\<rparr>]
       \<and> filter (\<lambda>u. email u = em) (users (snd (signup e em password submitted s))) =
           [\<lparr>uid = next_id s, email = em, password_hash = h,
             profile = no_scalars, work_tags = None\<rparr>]
       \<and> (JStr h \<noteq> password \<longrightarrow>
            (\<forall>u\<in>set (users (snd (signup e em password submitted s))).
               email u = em \<longrightarrow> JStr (password_hash u) \<noteq> password))
       \<and> (\<forall>e1 e2 password2.
            truthy password2 \<and> \<not> select_fails e2
            \<and> date_now e2 \<le> date_now e1 + 5 * 60 * 1000 \<longrightarrow>
            signup e2 em password2 (JStr (generateOtp (math_random e1)))
                (snd (send_otp e1 em (snd (signup e em password submitted s))))
              = (Message 400 ''User already exists, please login'',
                 snd (send_otp e1 em (snd (signup e em password submitted s)))))"
proof -
  let ?u = "\<lparr>uid = next_id s, email = em, password_hash = h,
              profile = no_scalars, work_tags = None\<rparr>"
  let ?s' = "s\<lparr>users := users s @ [?u], next_id := Suc (next_id s),
                otps := delete_property em (otps s)\<rparr>"
  have eq: "signup e em password submitted s = (MessageEmail ''Signup successful'' em, ?s')"
    using signup_success [OF assms] by (simp add: insert_user_def)
  have f: "filter (\<lambda>u. email u = em) (users ?s') = [?u]"
    using getUserByEmail_None_filter [OF assms(7)] by simp
  have p: "JStr h \<noteq> password \<longrightarrow>
            (\<forall>u\<in>set (users ?s'). email u = em \<longrightarrow> JStr (password_hash u) \<noteq> password)"
  proof (intro impI ballI)
    fix u assume "JStr h \<noteq> password" and "u \<in> set (users ?s')" and "email u = em"
    then have "u \<in> set (filter (\<lambda>u. email u = em) (users ?s'))" by simp
    then have "u = ?u" unfolding f by simp
    with \<open>JStr h \<noteq> password\<close> show "JStr (password_hash u) \<noteq> password" by simp
  qed
  have again: "signup e2 em password2 (JStr (generateOtp (math_random e1)))
                (snd (send_otp e1 em ?s'))
              = (Message 400 ''User already exists, please login'', snd (send_otp e1 em ?s'))"
    if "truthy password2 \<and> \<not> select_fails e2 \<and> date_now e2 \<le> date_now e1 + 5 * 60 * 1000"
    for e1 e2 password2
  proof (rule signup_conflict)
    show "em \<noteq> []" by (rule assms(1))
    show "truthy password2" using that by simp
    show "truthy (JStr (generateOtp (math_random e1)))" by (simp add: generateOtp_nonempty)
    show "\<not> otp_rejected (map_of (otps (snd (send_otp e1 em ?s'))) em)
           (JStr (generateOtp (math_random e1))) (date_now e2)"
      using that by (intro fresh_code_passes assms(1)) simp
    show "\<not> select_fails e2" using that by simp
    show "getUserByEmail (users (snd (send_otp e1 em ?s'))) em \<noteq> None"
      by (simp add: send_otp_storage getUserByEmail_append assms(7))
        (simp add: getUserByEmail_def)
  qed
  show ?thesis unfolding eq using f p again by simp
qed

lemma initial_signup_gate:
  "\<not> otp_rejected (map_of (otps (snd (send_otp (example_env 1000) ''b@x.com'' initial))) ''b@x.com'')
      (JStr ''550000'') (date_now (example_env 2000))"
  by (simp add: example_send otp_rejected_def update_conv') (simp add: example_env_def)

theorem signup_creates_one_account_witness:
  "''b@x.com'' \<noteq> [] \<and> truthy (JStr ''pw'') \<and> truthy (JStr ''550000'')
   \<and> \<not> select_fails (example_env 2000) \<and> \<not> write_fails (example_env 2000)
   \<and> getUserByEmail (users (snd (send_otp (example_env 1000) ''b@x.com'' initial))) ''b@x.com''
       = None
   \<and> bcrypt_hash (example_env 2000) (JStr ''pw'') = Some ''$2b$10$pw''
   \<and> \<not> otp_rejected
         (map_of (otps (snd (send_otp (example_env 1000) ''b@x.com'' initial))) ''b@x.com'')
         (JStr ''550000'') (date_now (example_env 2000))
   \<and> users (snd (signup (example_env 2000) ''b@x.com'' (JStr ''pw'') (JStr ''550000'')
        (snd (send_otp (example_env 1000) ''b@x.com'' initial)))) =
       [\<lparr>uid = 1, email = ''b@x.com'', password_hash = ''$2b$10$pw'',
         profile = no_scalars, work_tags = None\<rparr>]
   \<and> fst (signup (example_env 4000) ''b@x.com'' (JStr ''other'') (JStr ''550000'')
        (snd (send_otp (example_env 3000) ''b@x.com''
          (snd (signup (example_env 2000) ''b@x.com'' (JStr ''pw'') (JStr ''550000'')
            (snd (send_otp (example_env 1000) ''b@x.com'' initial)))))))
       = Message 400 ''User already exists, please login''"
proof -
  have r: "math_random (example_env 3000) = one_half" "date_now (example_env 4000) = 4000"
    "date_now (example_env 3000) = 3000" "\<not> select_fails (example_env 4000)"
    "\<not> select_fails (example_env 2000)" "\<not> write_fails (example_env 2000)"
    "bcrypt_hash (example_env 2000) (JStr ''pw'') = Some ''$2b$10$pw''"
    by (simp_all add: example_env_def example_hash_def)
  have u: "getUserByEmail (users (snd (send_otp (example_env 1000) ''b@x.com'' initial))) ''b@x.com''
       = None"
    by (simp add: send_otp_storage) (simp add: initial_def getUserByEmail_def)
  have n: "next_id (snd (send_otp (example_env 1000) ''b@x.com'' initial)) = 1"
    "users (snd (send_otp (example_env 1000) ''b@x.com'' initial)) = []"
    by (simp_all add: send_otp_storage) (simp_all add: initial_def)
  note T = signup_creates_one_account [where em = "''b@x.com''" and password = "JStr ''pw''"
      and submitted = "JStr ''550000''" and e = "example_env 2000"
      and s = "snd (send_otp (example_env 1000) ''b@x.com'' initial)" and h = "''$2b$10$pw''",
      OF _ _ _ initial_signup_gate r(5,6) u r(7)]
  have A: "users (snd (signup (example_env 2000) ''b@x.com'' (JStr ''pw'') (JStr ''550000'')
        (snd (send_otp (example_env 1000) ''b@x.com'' initial)))) =
       [\<lparr>uid = 1, email = ''b@x.com'', password_hash = ''$2b$10$pw'',
         profile = no_scalars, work_tags = None\<rparr>]"
    using T [THEN conjunct2, THEN conjunct1] by (simp add: n)
  have B: "signup (example_env 4000) ''b@x.com'' (JStr ''other'') (JStr ''550000'')
        (snd (send_otp (example_env 3000) ''b@x.com''
          (snd (signup (example_env 2000) ''b@x.com'' (JStr ''pw'') (JStr ''550000'')
            (snd (send_otp (example_env 1000) ''b@x.com'' initial))))))
       = (Message 400 ''User already exists, please login'',
          snd (send_otp (example_env 3000) ''b@x.com''
          (snd (signup (example_env 2000) ''b@x.com'' (JStr ''pw'') (JStr ''550000'')
            (snd (send_otp (example_env 1000) ''b@x.com'' initial))))))"
    using T [THEN conjunct2, THEN conjunct2, THEN conjunct2, THEN conjunct2,
        THEN spec, of "example_env 3000", THEN spec, of "example_env 4000",
        THEN spec, of "JStr ''other''"]
    by (simp add: r example_code)
  show ?thesis using A B u r initial_signup_gate by simp
qed

section \<open>Login\<close>

lemma login_result:
  assumes "em \<noteq> []" and "truthy password" and "\<not> select_fails e"
  shows "login e em password s =
     (case getUserByEmail (users s) em of
        None \<Rightarrow> (Message 404 ''User not found, please sign up'', s)
      | Some u \<Rightarrow>
          (case bcrypt_compare e password (password_hash u) of
             None \<Rightarrow> (Message 500 ''Server error during login'', s)
           | Some ok \<Rightarrow>
               if \<not> ok then (Message 400 ''Invalid password'', s)
               else if write_fails e then (Message 500 ''Server error during login'', s)
               else (MessageEmail ''Login successful'' em,
                     s\<lparr>login_events := login_events s @ [uid u]\<rparr>)))"
  using assms by (auto simp: login_def dest: getUserByEmail_email split: option.splits)

lemma login_ignores_registry:
  "login e em password (s\<lparr>otps := reg\<rparr>) =
     (fst (login e em password s), (snd (login e em password s))\<lparr>otps := reg\<rparr>)"
  by (simp add: login_def split: option.splits)

text \<open>
  C6. With both fields present and storage readable: an identity without an account gets
  status 404 and the state is unchanged; an account whose hash bcrypt does not accept
  for the password gets status 400 \<open>Invalid password\<close> and the state, \<open>login_events\<close>
  included, is unchanged; when bcrypt accepts and the insert works, one row with the
  account's id is appended to \<open>login_events\<close> and nothing else changes. The two
  failures differ. The result of login does not depend on the registry, and login leaves
  the registry as it is.
\<close>

theorem login_outcomes:
  assumes "em \<noteq> []" and "truthy password" and "\<not> select_fails e"
  shows "(getUserByEmail (users s) em = None \<longrightarrow>
            login e em password s = (Message 404 ''User not found, please sign up'', s))
       \<and> (\<forall>u. getUserByEmail (users s) em = Some u
              \<and> bcrypt_compare e password (password_hash u) = Some False \<longrightarrow>
            login e em password s = (Message 400 ''Invalid password'', s))
       \<and> (\<forall>u. getUserByEmail (users s) em = Some u
              \<and> bcrypt_compare e password (password_hash u) = Some True
              \<and> \<not> write_fails e \<longrightarrow>
            login e em password s =
              (MessageEmail ''Login successful'' em,
               s\<lparr>login_events := login_events s @ [uid u]\<rparr>))
       \<and> Message 404 ''User not found, please sign up'' \<noteq> Message 400 ''Invalid password''
       \<and> (\<forall>reg. login e em password (s\<lparr>otps := reg\<rparr>) =
            (fst (login e em password s), (snd (login e em password s))\<lparr>otps := reg\<rparr>))
       \<and> otps (snd (login e em password s)) = otps s"
proof (intro conjI allI impI)
  assume "getUserByEmail (users s) em = None"
  then show "login e em password s = (Message 404 ''User not found, please sign up'', s)"
    unfolding login_result [OF assms] by simp
next
  fix u
  assume "getUserByEmail (users s) em = Some u
      \<and> bcrypt_compare e password (password_hash u) = Some False"
  then show "login e em password s = (Message 400 ''Invalid password'', s)"
    unfolding login_result [OF assms] by simp
next
  fix u
  assume "getUserByEmail (users s) em = Some u
      \<and> bcrypt_compare e password (password_hash u) = Some True \<and> \<not> write_fails e"
  then show "login e em password s =
      (MessageEmail ''Login successful'' em, s\<lparr>login_events := login_events s @ [uid u]\<rparr>)"
    unfolding login_result [OF assms] by simp
next
  show "Message 404 ''User not found, please sign up'' \<noteq> Message 400 ''Invalid password''"
    by simp
next
  fix reg
  show "login e em password (s\<lparr>otps := reg\<rparr>) =
      (fst (login e em password s), (snd (login e em password s))\<lparr>otps := reg\<rparr>)"
    by (rule login_ignores_registry)
next
  show "otps (snd (login e em password s)) = otps s" by (rule login_otps)
qed

theorem login_outcomes_witness:
  "''a@x.com'' \<noteq> [] \<and> truthy (JStr ''secret'') \<and> \<not> select_fails (example_env 2000)
   \<and> login (example_env 2000) ''a@x.com'' (JStr ''secret'') example_server =
       (MessageEmail ''Login successful'' ''a@x.com'', example_server\<lparr>login_events := [1]\<rparr>)
   \<and> login (example_env 2000) ''a@x.com'' (JStr ''wrong'') example_server =
       (Message 400 ''Invalid password'', example_server)
   \<and> login (example_env 2000) ''b@x.com'' (JStr ''secret'') example_server =
       (Message 404 ''User not found, please sign up'', example_server)"
proof -
  have r: "\<not> select_fails (example_env 2000)" "\<not> write_fails (example_env 2000)"
    "bcrypt_compare (example_env 2000) (JStr ''secret'') (password_hash example_user) = Some True"
    "bcrypt_compare (example_env 2000) (JStr ''wrong'') (password_hash example_user) = Some False"
    "uid example_user = 1" "login_events example_server = []"
    "getUserByEmail (users example_server) ''b@x.com'' = None"
    by (simp_all add: example_env_def example_compare_def example_user_def insert_user_def
        example_server_def getUserByEmail_def)
  note T = login_outcomes [where e = "example_env 2000" and s = example_server, OF _ _ r(1)]
  have 1: "login (example_env 2000) ''a@x.com'' (JStr ''secret'') example_server =
       (MessageEmail ''Login successful'' ''a@x.com'', example_server\<lparr>login_events := [1]\<rparr>)"
    using T [of "''a@x.com''" "JStr ''secret''", THEN conjunct2, THEN conjunct2, THEN conjunct1,
        THEN spec, of example_user]
    by (simp add: r example_lookup)
  have 2: "login (example_env 2000) ''a@x.com'' (JStr ''wrong'') example_server =
       (Message 400 ''Invalid password'', example_server)"
    using T [of "''a@x.com''" "JStr ''wrong''", THEN conjunct2, THEN conjunct1,
        THEN spec, of example_user]
    by (simp add: r example_lookup)
  have 3: "login (example_env 2000) ''b@x.com'' (JStr ''secret'') example_server =
       (Message 404 ''User not found, please sign up'', example_server)"
    using T [of "''b@x.com''" "JStr ''secret''", THEN conjunct1]
    by (simp add: r)
  show ?thesis using 1 2 3 r by simp
qed

section \<open>Reset of the password\<close>

lemma getUserByEmail_update_password_hash:
  "getUserByEmail us em = Some u \<Longrightarrow>
   getUserByEmail (update_password_hash (uid u) h us) em = Some (u\<lparr>password_hash := h\<rparr>)"
  by (induction us) (auto simp: getUserByEmail_def update_password_hash_def)

lemma reset_success:
  assumes "em \<noteq> []" and "truthy submitted" and "truthy newPassword"
    and "\<not> otp_rejected (map_of (otps s) em) submitted (date_now e)"
    and "\<not> select_fails e" and "\<not> write_fails e"
    and "getUserByEmail (users s) em = Some u"
    and "bcrypt_hash e newPassword = Some h"
  shows "reset_password e em submitted newPassword s =
     (Message 200 ''Password reset successful'',
      s\<lparr>users := update_password_hash (uid u) h (users s),
        otps := delete_property em (otps s)\<rparr>)"
  unfolding reset_result [OF assms(1-4)] using assms(5-8) by simp

text \<open>
  C7, amended. For an existing account, with the three fields present, the gate passed,
  storage working and bcrypt returning the hash \<open>h\<close> of the new password, the reset
  succeeds and replaces \<open>password_hash\<close> by \<open>h\<close> in the rows with the account's id;
  nothing else changes in any row, and no other row changes. What bcrypt promises is a
  hypothesis on \<open>bcrypt.compare\<close>: it accepts the new password for \<open>h\<close>, and it
  refuses the old password for \<open>h\<close> when the old password differs from the new one.
  Then a later login with the new password succeeds, and a later login with the old
  password is answered \<open>Invalid password\<close> provided the old password differs from the
  new one. In general a later login succeeds exactly when bcrypt accepts the password
  for \<open>h\<close>.
\<close>

theorem reset_overwrites_hash:
  assumes "em \<noteq> []" and "truthy submitted" and "truthy newPassword" and "truthy oldPassword"
    and "\<not> otp_rejected (map_of (otps s) em) submitted (date_now e)"
    and "\<not> select_fails e" and "\<not> write_fails e"
    and "getUserByEmail (users s) em = Some u"
    and "bcrypt_hash e newPassword = Some h"
    and "\<not> select_fails e2" and "\<not> write_fails e2"
    and "bcrypt_compare e2 newPassword h = Some True"
    and "oldPassword \<noteq> newPassword \<longrightarrow> bcrypt_compare e2 oldPassword h = Some False"
  shows "reset_password e em submitted newPassword s =
           (Message 200 ''Password reset successful'',
            s\<lparr>users := map (\<lambda>v. if uid v = uid u then v\<lparr>password_hash := h\<rparr> else v) (users s),
              otps := delete_property em (otps s)\<rparr>)
       \<and> getUserByEmail (users (snd (reset_password e em submitted newPassword s))) em
           = Some (u\<lparr>password_hash := h\<rparr>)
       \<and> fst (login e2 em newPassword (snd (reset_password e em submitted newPassword s)))
           = MessageEmail ''Login successful'' em
       \<and> (oldPassword \<noteq> newPassword \<longrightarrow>
            fst (login e2 em oldPassword (snd (reset_password e em submitted newPassword s)))
              = Message 400 ''Invalid password'')
       \<and> (\<forall>p. truthy p \<longrightarrow>
            ((fst (login e2 em p (snd (reset_password e em submitted newPassword s)))
                = MessageEmail ''Login successful'' em)
               = (bcrypt_compare e2 p h = Some True))
          \<and> ((fst (login e2 em p (snd (reset_password e em submitted newPassword s)))
                = Message 400 ''Invalid password'')
               = (bcrypt_compare e2 p h = Some False)))"
proof -
  let ?s' = "s\<lparr>users := map (\<lambda>v. if uid v = uid u then v\<lparr>password_hash := h\<rparr> else v) (users s),
                otps := delete_property em (otps s)\<rparr>"
  have eq: "reset_password e em submitted newPassword s
              = (Message 200 ''Password reset successful'', ?s')"
    using reset_success [OF assms(1,2,3,5,6,7,8,9)] by (simp add: update_password_hash_def)
  have g: "getUserByEmail (users ?s') em = Some (u\<lparr>password_hash := h\<rparr>)"
    using getUserByEmail_update_password_hash [OF assms(8), of h]
    by (simp add: update_password_hash_def)
  have l: "(fst (login e2 em p ?s') = MessageEmail ''Login successful'' em)
             = (bcrypt_compare e2 p h = Some True)
         \<and> (fst (login e2 em p ?s') = Message 400 ''Invalid password'')
             = (bcrypt_compare e2 p h = Some False)"
    if "truthy p" for p
    unfolding login_result [OF assms(1) that assms(10)] g using assms(11)
    by (cases "bcrypt_compare e2 p h") auto
  have new: "fst (login e2 em newPassword ?s') = MessageEmail ''Login successful'' em"
    using l [OF assms(3)] assms(12) by simp
  have old: "fst (login e2 em oldPassword ?s') = Message 400 ''Invalid password''"
    if "oldPassword \<noteq> newPassword"
    using l [OF assms(4)] assms(13) that by simp
  show ?thesis unfolding eq using g l new old by simp
qed

text \<open>
  C7, as the specification states it, fails when the new password is the old one: the
  handler does not compare them, and bcrypt accepts a password for its own hash. In the
  example the account's password is \<open>secret\<close>; after a reset to \<open>secret\<close> the old
  password still logs in.
\<close>

theorem reset_to_same_password_counterexample:
  "fst (login (example_env 2000) ''a@x.com'' (JStr ''secret'') example_server)
     = MessageEmail ''Login successful'' ''a@x.com''
   \<and> fst (reset_password (example_env 1000) ''a@x.com'' (JStr ''550000'') (JStr ''secret'')
        example_server) = Message 200 ''Password reset successful''
   \<and> fst (login (example_env 2000) ''a@x.com'' (JStr ''secret'')
        (snd (reset_password (example_env 1000) ''a@x.com'' (JStr ''550000'') (JStr ''secret'')
           example_server))) = MessageEmail ''Login successful'' ''a@x.com''"
  by (simp add: example_reset)
    (simp add: login_def example_env_def example_server_def getUserByEmail_def example_user_def
      insert_user_def example_compare_def)

theorem reset_overwrites_hash_witness:
  "''a@x.com'' \<noteq> [] \<and> truthy (JStr ''550000'') \<and> truthy (JStr ''fresh'')
   \<and> truthy (JStr ''secret'')
   \<and> \<not> otp_rejected (map_of (otps example_server) ''a@x.com'') (JStr ''550000'')
         (date_now (example_env 1000))
   \<and> \<not> select_fails (example_env 1000) \<and> \<not> write_fails (example_env 1000)
   \<and> getUserByEmail (users example_server) ''a@x.com'' = Some example_user
   \<and> bcrypt_hash (example_env 1000) (JStr ''fresh'') = Some ''$2b$10$fresh''
   \<and> \<not> select_fails (example_env 2000) \<and> \<not> write_fails (example_env 2000)
   \<and> bcrypt_compare (example_env 2000) (JStr ''fresh'') ''$2b$10$fresh'' = Some True
   \<and> JStr ''secret'' \<noteq> JStr ''fresh''
   \<and> bcrypt_compare (example_env 2000) (JStr ''secret'') ''$2b$10$fresh'' = Some False
   \<and> fst (login (example_env 2000) ''a@x.com'' (JStr ''secret'') example_server)
       = MessageEmail ''Login successful'' ''a@x.com''
   \<and> users (snd (reset_password (example_env 1000) ''a@x.com'' (JStr ''550000'')
        (JStr ''fresh'') example_server))
       = [example_user\<lparr>password_hash := ''$2b$10$fresh''\<rparr>]
   \<and> fst (login (example_env 2000) ''a@x.com'' (JStr ''fresh'')
        (snd (reset_password (example_env 1000) ''a@x.com'' (JStr ''550000'') (JStr ''fresh'')
           example_server))) = MessageEmail ''Login successful'' ''a@x.com''
   \<and> fst (login (example_env 2000) ''a@x.com'' (JStr ''secret'')
        (snd (reset_password (example_env 1000) ''a@x.com'' (JStr ''550000'') (JStr ''fresh'')
           example_server))) = Message 400 ''Invalid password''"
proof -
  have r: "\<not> select_fails (example_env 1000)" "\<not> write_fails (example_env 1000)"
    "bcrypt_hash (example_env 1000) (JStr ''fresh'') = Some ''$2b$10$fresh''"
    "\<not> select_fails (example_env 2000)" "\<not> write_fails (example_env 2000)"
    "bcrypt_compare (example_env 2000) (JStr ''fresh'') ''$2b$10$fresh'' = Some True"
    "bcrypt_compare (example_env 2000) (JStr ''secret'') ''$2b$10$fresh'' = Some False"
    by (simp_all add: example_env_def example_hash_def example_compare_def)
  have d: "JStr ''secret'' \<noteq> JStr ''fresh'' \<longrightarrow>
      bcrypt_compare (example_env 2000) (JStr ''secret'') ''$2b$10$fresh'' = Some False"
    using r(7) by simp
  have b: "fst (login (example_env 2000) ''a@x.com'' (JStr ''secret'') example_server)
       = MessageEmail ''Login successful'' ''a@x.com''"
    by (simp add: login_def example_env_def example_server_def getUserByEmail_def
        example_user_def insert_user_def example_compare_def)
  have t: "truthy (JStr ''550000'')" "truthy (JStr ''fresh'')" "truthy (JStr ''secret'')"
    "''a@x.com'' \<noteq> []"
    by simp_all
  note T = reset_overwrites_hash [where em = "''a@x.com''" and submitted = "JStr ''550000''"
      and newPassword = "JStr ''fresh''" and oldPassword = "JStr ''secret''"
      and e = "example_env 1000" and ?e2.0 = "example_env 2000" and s = example_server
      and u = example_user and h = "''$2b$10$fresh''",
      OF t(4) t(1,2,3) example_gate r(1,2) example_lookup r(3) r(4,5) r(6) d]
  have 1: "users (snd (reset_password (example_env 1000) ''a@x.com'' (JStr ''550000'')
        (JStr ''fresh'') example_server))
       = [example_user\<lparr>password_hash := ''$2b$10$fresh''\<rparr>]"
    using T [THEN conjunct1] by (simp add: example_server_def)
  have 2: "fst (login (example_env 2000) ''a@x.com'' (JStr ''fresh'')
        (snd (reset_password (example_env 1000) ''a@x.com'' (JStr ''550000'') (JStr ''fresh'')
           example_server))) = MessageEmail ''Login successful'' ''a@x.com''"
    using T [THEN conjunct2, THEN conjunct2, THEN conjunct1] by simp
  have 3: "fst (login (example_env 2000) ''a@x.com'' (JStr ''secret'')
        (snd (reset_password (example_env 1000) ''a@x.com'' (JStr ''550000'') (JStr ''fresh'')
           example_server))) = Message 400 ''Invalid password''"
    using T [THEN conjunct2, THEN conjunct2, THEN conjunct2, THEN conjunct1] by simp
  show ?thesis using 1 2 3 b r example_lookup example_gate [of 1000] by simp
qed

section \<open>A transport that fails\<close>

text \<open>
  C8. When the transport throws, send-otp answers status 500, no message is sent, and
  the entry stored before the send is in the registry with the expiry five minutes after
  the clock of the request. Until that expiry the code passes the gate: a signup or a
  reset-password with it is not answered \<open>Invalid or expired OTP\<close>.
\<close>

theorem failed_send_keeps_entry:
  assumes "em \<noteq> []" and "mail_fails e"
  shows "fst (send_otp e em s) = Message 500 ''Failed to send email OTP''
       \<and> sent (snd (send_otp e em s)) = sent s
       \<and> map_of (otps (snd (send_otp e em s))) em =
           Some \<lparr>otp = generateOtp (math_random e), expiresAt = date_now e + 5 * 60 * 1000\<rparr>
       \<and> (\<forall>e2 password.
            truthy password \<and> date_now e2 \<le> date_now e + 5 * 60 * 1000 \<longrightarrow>
            spec_otp_valid (otps (snd (send_otp e em s))) em
               (JStr (generateOtp (math_random e))) (date_now e2)
          \<and> fst (signup e2 em password (JStr (generateOtp (math_random e)))
                 (snd (send_otp e em s))) \<noteq> Message 400 ''Invalid or expired OTP''
          \<and> fst (reset_password e2 em (JStr (generateOtp (math_random e))) password
                 (snd (send_otp e em s))) \<noteq> Message 400 ''Invalid or expired OTP'')"
proof -
  have g: "\<not> otp_rejected (map_of (otps (snd (send_otp e em s))) em)
            (JStr (generateOtp (math_random e))) (date_now e2)"
    if "date_now e2 \<le> date_now e + 5 * 60 * 1000" for e2
    using that by (intro fresh_code_passes assms(1)) simp
  have "spec_otp_valid (otps (snd (send_otp e em s))) em
               (JStr (generateOtp (math_random e))) (date_now e2)
          \<and> fst (signup e2 em password (JStr (generateOtp (math_random e)))
                 (snd (send_otp e em s))) \<noteq> Message 400 ''Invalid or expired OTP''
          \<and> fst (reset_password e2 em (JStr (generateOtp (math_random e))) password
                 (snd (send_otp e em s))) \<noteq> Message 400 ''Invalid or expired OTP''"
    if "truthy password \<and> date_now e2 \<le> date_now e + 5 * 60 * 1000" for e2 password
    using g [of e2] that signup_gate_open reset_gate_open otp_rejected_iff by blast
  then have later: "\<forall>e2 password.
            truthy password \<and> date_now e2 \<le> date_now e + 5 * 60 * 1000 \<longrightarrow>
            spec_otp_valid (otps (snd (send_otp e em s))) em
               (JStr (generateOtp (math_random e))) (date_now e2)
          \<and> fst (signup e2 em password (JStr (generateOtp (math_random e)))
                 (snd (send_otp e em s))) \<noteq> Message 400 ''Invalid or expired OTP''
          \<and> fst (reset_password e2 em (JStr (generateOtp (math_random e))) password
                 (snd (send_otp e em s))) \<noteq> Message 400 ''Invalid or expired OTP''"
    by blast
  have 1: "fst (send_otp e em s) = Message 500 ''Failed to send email OTP''"
    using assms by (simp add: send_otp_response)
  have 2: "sent (snd (send_otp e em s)) = sent s"
    using assms by (simp add: send_otp_sent)
  have 3: "map_of (otps (snd (send_otp e em s))) em =
           Some \<lparr>otp = generateOtp (math_random e), expiresAt = date_now e + 5 * 60 * 1000\<rparr>"
    using assms by (simp add: send_otp_lookup)
  from 1 2 3 later show ?thesis by (intro conjI)
qed

theorem failed_send_keeps_entry_witness:
  "''b@x.com'' \<noteq> [] \<and> mail_fails ((example_env 1000)\<lparr>mail_fails := True\<rparr>)
   \<and> truthy (JStr ''pw'')
   \<and> date_now (example_env 301000)
         \<le> date_now ((example_env 1000)\<lparr>mail_fails := True\<rparr>) + 5 * 60 * 1000
   \<and> send_otp ((example_env 1000)\<lparr>mail_fails := True\<rparr>) ''b@x.com'' initial =
       (Message 500 ''Failed to send email OTP'',
        initial\<lparr>otps := [(''b@x.com'', \<lparr>otp = ''550000'', expiresAt = 301000\<rparr>)]\<rparr>)
   \<and> fst (signup (example_env 301000) ''b@x.com'' (JStr ''pw'') (JStr ''550000'')
        (snd (send_otp ((example_env 1000)\<lparr>mail_fails := True\<rparr>) ''b@x.com'' initial)))
       = MessageEmail ''Signup successful'' ''b@x.com''"
proof -
  let ?e = "(example_env 1000)\<lparr>mail_fails := True\<rparr>"
  have r: "mail_fails ?e" "math_random ?e = one_half" "date_now ?e = 1000"
    "date_now (example_env 301000) = 301000"
    by (simp_all add: example_env_def)
  note T = failed_send_keeps_entry [where em = "''b@x.com''" and e = ?e and s = initial,
      OF _ r(1)]
  have s: "send_otp ?e ''b@x.com'' initial =
       (Message 500 ''Failed to send email OTP'',
        initial\<lparr>otps := [(''b@x.com'', \<lparr>otp = ''550000'', expiresAt = 301000\<rparr>)]\<rparr>)"
    by (simp add: send_otp_def r example_code Let_def) (simp add: initial_def)
  have "fst (signup (example_env 301000) ''b@x.com'' (JStr ''pw'') (JStr ''550000'')
        (snd (send_otp ?e ''b@x.com'' initial))) \<noteq> Message 400 ''Invalid or expired OTP''"
    using T [THEN conjunct2, THEN conjunct2, THEN conjunct2, THEN spec, of "example_env 301000",
        THEN spec, of "JStr ''pw''"]
    by (simp add: r example_code)
  moreover have "fst (signup (example_env 301000) ''b@x.com'' (JStr ''pw'') (JStr ''550000'')
        (snd (send_otp ?e ''b@x.com'' initial))) = MessageEmail ''Signup successful'' ''b@x.com''"
    unfolding s
    by (simp add: signup_def initial_def otp_rejected_def example_env_def getUserByEmail_def
        example_hash_def insert_user_def)
  ultimately show ?thesis using s r by simp
qed

section \<open>Tags: join and split\<close>

lemma split_comma_free: "CHR '','' \<notin> set w \<Longrightarrow> split_comma w = [w]"
  by (induction w) auto

lemma split_comma_append:
  "CHR '','' \<notin> set w \<Longrightarrow> split_comma (w @ CHR '','' # rest) = w # split_comma rest"
  by (induction w) auto

lemma split_comma_join:
  "ts \<noteq> [] \<Longrightarrow> \<forall>t\<in>set ts. CHR '','' \<notin> set t \<Longrightarrow> split_comma (comma_join ts) = ts"
proof (induction ts rule: comma_join.induct)
  case 1
  then show ?case by simp
next
  case (2 w)
  then show ?case by (simp add: split_comma_free)
next
  case (3 w v ws)
  then show ?case by (simp add: split_comma_append)
qed

lemma comma_join_nonempty:
  "ts \<noteq> [] \<Longrightarrow> \<forall>t\<in>set ts. t \<noteq> [] \<Longrightarrow> comma_join ts \<noteq> []"
  by (induction ts rule: comma_join.induct) auto

lemma array_join_strings: "array_join (map JStr ts) = comma_join ts"
proof -
  have "map (\<lambda>x. if x = JUndefined \<or> x = JNull then [] else js_String x) (map JStr ts) = ts"
    by (induction ts) simp_all
  then show ?thesis by (simp add: array_join_def)
qed

lemma tags_roundtrip:
  assumes "\<forall>t\<in>set ts. t \<noteq> [] \<and> CHR '','' \<notin> set t"
  shows "workTagsArray
           (if array_join (tagsArray (JArr (map JStr ts))) = [] then None
            else Some (array_join (tagsArray (JArr (map JStr ts))))) = ts"
proof (cases "ts = []")
  case True
  then show ?thesis by (simp add: tagsArray_def array_join_def workTagsArray_def)
next
  case False
  with assms have ne: "comma_join ts \<noteq> []" by (intro comma_join_nonempty) auto
  from False assms have sp: "split_comma (comma_join ts) = ts" by (intro split_comma_join) auto
  from assms have "filter (\<lambda>t. t \<noteq> []) ts = ts" by (simp add: filter_id_conv)
  with ne sp show ?thesis
    by (simp add: tagsArray_def array_join_strings workTagsArray_def)
qed

section \<open>The profile\<close>

lemma getUserByEmail_update_profile:
  "getUserByEmail us em = Some u \<Longrightarrow>
   getUserByEmail (update_profile (uid u) p tagsString us) em =
     Some (u\<lparr>profile := or_null p,
             work_tags := (if tagsString = [] then None else Some tagsString)\<rparr>)"
proof -
  have "find (\<lambda>v. email v = em) us = Some u \<Longrightarrow>
        find (\<lambda>v. email v = em)
          (map (\<lambda>v. if uid v = uid u then v\<lparr>profile := q, work_tags := w\<rparr> else v) us) =
        Some (u\<lparr>profile := q, work_tags := w\<rparr>)" for q w
    by (induction us) (simp_all split: if_splits)
  then show "getUserByEmail us em = Some u \<Longrightarrow> ?thesis"
    unfolding getUserByEmail_def update_profile_def by blast
qed

lemma save_profile_result:
  assumes "em \<noteq> []" and "\<not> select_fails e" and "\<not> write_fails e"
    and "getUserByEmail (users s) em = Some u"
  shows "save_profile e em p tags s =
     (MessageEmail ''Profile saved'' em,
      s\<lparr>users := update_profile (uid u) p (array_join (tagsArray tags)) (users s)\<rparr>)"
  using assms by (simp add: save_profile_def Let_def)

lemma get_user_result:
  assumes "em \<noteq> []" and "\<not> select_fails e" and "getUserByEmail (users s) em = Some u"
  shows "get_user e em s =
     (UserJson \<lparr>su_id = uid u, su_email = em, su_scalars = or_empty (profile u),
                workTags = workTagsArray (work_tags u)\<rparr>, s)"
  using assms getUserByEmail_email [OF assms(3)] by (simp add: get_user_def)

lemma fetch_after_save:
  assumes "em \<noteq> []" and "\<not> select_fails e" and "\<not> write_fails e" and "\<not> select_fails e2"
    and "getUserByEmail (users s) em = Some u"
  shows "fst (get_user e2 em (snd (save_profile e em p tags s))) =
     UserJson \<lparr>su_id = uid u, su_email = em, su_scalars = or_empty (or_null p),
               workTags = workTagsArray
                 (if array_join (tagsArray tags) = [] then None
                  else Some (array_join (tagsArray tags)))\<rparr>"
proof -
  let ?s' = "s\<lparr>users := update_profile (uid u) p (array_join (tagsArray tags)) (users s)\<rparr>"
  have "getUserByEmail (users ?s') em =
      Some (u\<lparr>profile := or_null p,
              work_tags := (if array_join (tagsArray tags) = [] then None
                            else Some (array_join (tagsArray tags)))\<rparr>)"
    using getUserByEmail_update_profile [OF assms(5)] by simp
  from get_user_result [OF assms(1,4) this] show ?thesis
    unfolding save_profile_result [OF assms(1,2,3,5)] by simp
qed

text \<open>
  C9, amended. For an existing account and working storage: a list of tags that are
  non-empty strings without a comma is read back by fetch as it was saved; an absent tag
  list and the empty list are read back as the empty list; a value that is no array is
  saved as the list of that one value when it is truthy, and as the empty list when it
  is falsy.
\<close>

theorem tags_roundtrip_truthy:
  assumes "em \<noteq> []" and "\<not> select_fails e" and "\<not> write_fails e" and "\<not> select_fails e2"
    and "getUserByEmail (users s) em = Some u"
  shows "((\<forall>t\<in>set ts. t \<noteq> [] \<and> CHR '','' \<notin> set t) \<longrightarrow>
            fst (get_user e2 em (snd (save_profile e em p (JArr (map JStr ts)) s))) =
              UserJson \<lparr>su_id = uid u, su_email = em, su_scalars = or_empty (or_null p),
                        workTags = ts\<rparr>)
       \<and> fst (get_user e2 em (snd (save_profile e em p JUndefined s))) =
           UserJson \<lparr>su_id = uid u, su_email = em, su_scalars = or_empty (or_null p),
                     workTags = []\<rparr>
       \<and> fst (get_user e2 em (snd (save_profile e em p (JArr []) s))) =
           UserJson \<lparr>su_id = uid u, su_email = em, su_scalars = or_empty (or_null p),
                     workTags = []\<rparr>
       \<and> ((\<forall>xs. v \<noteq> JArr xs) \<longrightarrow>
            (if truthy v
             then tagsArray v = [v]
                \<and> save_profile e em p v s = save_profile e em p (JArr [v]) s
             else tagsArray v = []
                \<and> save_profile e em p v s = save_profile e em p (JArr []) s))"
proof (intro conjI impI)
  assume "\<forall>t\<in>set ts. t \<noteq> [] \<and> CHR '','' \<notin> set t"
  then show "fst (get_user e2 em (snd (save_profile e em p (JArr (map JStr ts)) s))) =
              UserJson \<lparr>su_id = uid u, su_email = em, su_scalars = or_empty (or_null p),
                        workTags = ts\<rparr>"
    unfolding fetch_after_save [OF assms] by (simp only: tags_roundtrip)
next
  show "fst (get_user e2 em (snd (save_profile e em p JUndefined s))) =
           UserJson \<lparr>su_id = uid u, su_email = em, su_scalars = or_empty (or_null p),
                     workTags = []\<rparr>"
    unfolding fetch_after_save [OF assms]
    by (simp add: tagsArray_def array_join_def workTagsArray_def)
next
  show "fst (get_user e2 em (snd (save_profile e em p (JArr []) s))) =
           UserJson \<lparr>su_id = uid u, su_email = em, su_scalars = or_empty (or_null p),
                     workTags = []\<rparr>"
    unfolding fetch_after_save [OF assms]
    by (simp add: tagsArray_def array_join_def workTagsArray_def)
next
  assume "\<forall>xs. v \<noteq> JArr xs"
  then have t: "tagsArray v = (if truthy v then [v] else [])"
    by (cases v) (simp_all add: tagsArray_def)
  have a: "tagsArray (JArr xs) = xs" for xs by (simp add: tagsArray_def)
  show "if truthy v
        then tagsArray v = [v] \<and> save_profile e em p v s = save_profile e em p (JArr [v]) s
        else tagsArray v = [] \<and> save_profile e em p v s = save_profile e em p (JArr []) s"
    by (simp add: save_profile_def t a)
qed

lemma example_save:
  "fst (get_user (example_env 2000) ''a@x.com''
         (snd (save_profile (example_env 1000) ''a@x.com'' p tags example_server))) =
     UserJson \<lparr>su_id = 1, su_email = ''a@x.com'', su_scalars = or_empty (or_null p),
               workTags = workTagsArray
                 (if array_join (tagsArray tags) = [] then None
                  else Some (array_join (tagsArray tags)))\<rparr>"
  by (subst fetch_after_save [OF _ _ _ _ example_lookup])
    (simp_all add: example_env_def example_user_def insert_user_def)

text \<open>
  C9, as stated, fails for a single value that is falsy: \<open>workTags = 0\<close> is no array,
  and it is saved as the empty list, not as the list of the one element \<open>0\<close>, which
  would read back as \<open>["0"]\<close>.
\<close>

theorem falsy_tag_value_counterexample:
  "tagsArray (JNum 0) = []
   \<and> fst (get_user (example_env 2000) ''a@x.com''
         (snd (save_profile (example_env 1000) ''a@x.com'' no_scalars (JNum 0) example_server))) =
       UserJson \<lparr>su_id = 1, su_email = ''a@x.com'', su_scalars = or_empty (or_null no_scalars),
                 workTags = []\<rparr>
   \<and> fst (get_user (example_env 2000) ''a@x.com''
         (snd (save_profile (example_env 1000) ''a@x.com'' no_scalars (JArr [JNum 0])
            example_server))) =
       UserJson \<lparr>su_id = 1, su_email = ''a@x.com'', su_scalars = or_empty (or_null no_scalars),
                 workTags = [''0'']\<rparr>"
  by (simp add: example_save)
    (simp add: tagsArray_def array_join_def workTagsArray_def number_toString_def
      digits.simps [of 0] digit_char_def)

theorem tags_roundtrip_truthy_witness:
  "''a@x.com'' \<noteq> [] \<and> \<not> select_fails (example_env 1000) \<and> \<not> write_fails (example_env 1000)
   \<and> \<not> select_fails (example_env 2000)
   \<and> getUserByEmail (users example_server) ''a@x.com'' = Some example_user
   \<and> ''teaching'' \<noteq> [] \<and> CHR '','' \<notin> set ''teaching''
   \<and> ''tech'' \<noteq> [] \<and> CHR '','' \<notin> set ''tech''
   \<and> (\<forall>xs. JStr ''tech'' \<noteq> JArr xs) \<and> truthy (JStr ''tech'')
   \<and> array_join (tagsArray (JArr [JStr ''teaching'', JStr ''tech''])) = ''teaching,tech''
   \<and> fst (get_user (example_env 2000) ''a@x.com''
         (snd (save_profile (example_env 1000) ''a@x.com'' no_scalars
            (JArr [JStr ''teaching'', JStr ''tech'']) example_server))) =
       UserJson \<lparr>su_id = 1, su_email = ''a@x.com'', su_scalars = or_empty (or_null no_scalars),
                 workTags = [''teaching'', ''tech'']\<rparr>
   \<and> save_profile (example_env 1000) ''a@x.com'' no_scalars (JStr ''tech'') example_server
       = save_profile (example_env 1000) ''a@x.com'' no_scalars (JArr [JStr ''tech''])
           example_server"
proof -
  have r: "\<not> select_fails (example_env 1000)" "\<not> write_fails (example_env 1000)"
    "\<not> select_fails (example_env 2000)" "uid example_user = 1"
    by (simp_all add: example_env_def example_user_def insert_user_def)
  note T = tags_roundtrip_truthy [where em = "''a@x.com''" and e = "example_env 1000"
      and ?e2.0 = "example_env 2000" and s = example_server and u = example_user
      and p = no_scalars and ts = "[''teaching'', ''tech'']" and v = "JStr ''tech''",
      OF _ r(1,2,3) example_lookup]
  have j: "array_join (tagsArray (JArr [JStr ''teaching'', JStr ''tech''])) = ''teaching,tech''"
    by (simp add: tagsArray_def array_join_def)
  show ?thesis using T r example_lookup j by simp
qed

section \<open>Scalar fields\<close>




end
